theory Spec2Isabelle
  imports Complex_Main
begin

section \<open>Values\<close>

text \<open>
  The program of \<^verbatim>\<open>src/app.py\<close> is a webhook relay: an HTTP handler
  (\<^verbatim>\<open>create_post\<close>) authenticates a request and starts a background pipeline
  (\<^verbatim>\<open>process_media_and_post_async\<close>) that downloads an image, uploads it to a CMS
  (\<^verbatim>\<open>upload_image_to_wordpress\<close>), creates a post (\<^verbatim>\<open>create_post_in_wordpress\<close>) and
  notifies a workflow engine (\<^verbatim>\<open>notify_successful_post\<close>).

  The values the program handles are the results of Python's JSON decoding: \<^verbatim>\<open>None\<close>,
  booleans, unbounded integers, floats, strings, lists and dictionaries. Strings are
  byte strings (the UTF-8 encoding of Python's text). A float is kept as the rational
  it denotes, an infinity with its sign, or NaN (Python's decoder accepts
  \<^verbatim>\<open>Infinity\<close> and \<^verbatim>\<open>NaN\<close>). A dictionary is an association list; a key is looked up at its
  first occurrence.
\<close>

datatype pyfloat = Finite rat | Infinity bool | NaN

datatype json =
    JNull
  | JBool bool
  | JInt int
  | JFloat pyfloat
  | JStr string
  | JList "json list"
  | JDict "(string \<times> json) list"

text \<open>Python's truth value of an object, as \<^verbatim>\<open>if x:\<close> and \<^verbatim>\<open>and\<close> test it.\<close>

fun truthy :: "json \<Rightarrow> bool" where
  "truthy JNull = False"
| "truthy (JBool b) = b"
| "truthy (JInt i) = (i \<noteq> 0)"
| "truthy (JFloat f) = (f \<noteq> Finite 0)"
| "truthy (JStr s) = (s \<noteq> [])"
| "truthy (JList xs) = (xs \<noteq> [])"
| "truthy (JDict kvs) = (kvs \<noteq> [])"

text \<open>\<^verbatim>\<open>d.get(k)\<close> on a dictionary: the value, or \<^verbatim>\<open>None\<close> when the key is absent.\<close>

definition dict_get :: "(string \<times> json) list \<Rightarrow> string \<Rightarrow> json" where
  "dict_get d k = (case map_of d k of None \<Rightarrow> JNull | Some v \<Rightarrow> v)"

section \<open>Exceptions and outcomes\<close>

text \<open>
  The exceptions that the program raises itself or receives from a library call.
  \<open>RequestException\<close> stands for any exception of the \<^verbatim>\<open>requests\<close> library other than
  the \<open>HTTPError\<close> that \<^verbatim>\<open>raise_for_status\<close> raises; both are caught by
  \<^verbatim>\<open>except requests.RequestException\<close>, nothing else is.
\<close>

datatype exn =
    RequestException string
  | HTTPError nat
  | JSONDecodeError string
  | TypeError
  | AttributeError
  | KeyError
  | ValueError
  | OverflowError
  | FileExistsError
  | OtherException string

fun is_request_exception :: "exn \<Rightarrow> bool" where
  "is_request_exception (RequestException _) = True"
| "is_request_exception (HTTPError _) = True"
| "is_request_exception _ = False"

datatype 'a outcome = Returned 'a | Raised exn

text \<open>
  What a call to an upstream server gives: the library raises, or there is a response
  with a status code and a body.
\<close>

datatype 'a http_result = Raises exn | Response nat 'a

text \<open>\<^verbatim>\<open>response.raise_for_status()\<close>: an \<open>HTTPError\<close> for a 4xx or 5xx status.\<close>

definition raise_for_status :: "nat \<Rightarrow> exn option" where
  "raise_for_status status =
     (if 400 \<le> status \<and> status < 600 then Some (HTTPError status) else None)"

section \<open>Effects: the events of a run and the temporary files\<close>

datatype level = INFO | WARNING | ERROR

datatype log_arg = Arg_exn exn | Arg_str string | Arg_nat nat | Arg_json json

text \<open>
  The body of an outgoing request.
  \<^item> \<open>Multipart_data (filename, content, type) alt_text caption description\<close> is the
    \<^verbatim>\<open>MultipartEncoder\<close> of lines 43-50.
  \<^item> \<open>Post_data title author content status categories featured_media\<close> is the template
    of lines 81-89 filled with these values (the rendering of the values to
    characters by \<^verbatim>\<open>%s\<close>, \<^verbatim>\<open>%d\<close> and \<^verbatim>\<open>json.dumps\<close> is not modelled; the
    content is the escaped string, the last field the integer \<^verbatim>\<open>%d\<close> prints).
\<close>

datatype payload =
    Multipart_data "string \<times> string \<times> string" json string json
  | Post_data json json string json json int

text \<open>
  The \<^verbatim>\<open>Authorization\<close> header: \<open>Basic u p\<close> stands for \<^verbatim>\<open>'Basic '\<close> followed by the
  base64 encoding of \<^verbatim>\<open>u + ':' + p\<close>, \<open>Bearer t\<close> for \<^verbatim>\<open>'Bearer ' + t\<close>.
\<close>

datatype authorization = Basic string string | Bearer string

text \<open>
  An event is recorded when the program reaches the call: a log record (level, message
  template, arguments; an f-string is kept as its template and the values it
  interpolates), \<^verbatim>\<open>requests.get(image_url, auth=(username, password))\<close>,
  \<^verbatim>\<open>requests.post(url, data, headers)\<close>, the \<^verbatim>\<open>session.post(url, json, headers)\<close> of
  the notifier, the creation and the unlinking of a temporary file.
\<close>

datatype event =
    Log level string "log_arg list"
  | Requests_get json json json
  | Requests_post string payload authorization
  | Session_post string json authorization
  | Temp_file_created string
  | Temp_file_unlinked string

text \<open>The temporary directory \<^verbatim>\<open>tmp_dir\<close>: the files in it, by name, with their bytes.\<close>

type_synonym tmp_dir = "string \<rightharpoonup> string"

text \<open>
  A run of a function that touches the temporary directory: what it returned or
  raised, the directory it left, and the events it recorded, in order.
\<close>

record 'a run =
  outcome :: "'a outcome"
  tmp_files :: tmp_dir
  events :: "event list"

text \<open>
  The environment answers the calls the program makes to what it does not control:
  its answer may depend on everything the call is given.
  \<^item> \<open>requests_get url username password\<close>: the download; a response carries the bytes.
  \<^item> \<open>temp_name\<close>: the name \<^verbatim>\<open>NamedTemporaryFile\<close> picks in the temporary directory.
  \<^item> \<open>multipart_encoder fields\<close>: the exception \<^verbatim>\<open>MultipartEncoder(fields)\<close> raises, if any.
  \<^item> \<open>requests_post url data authorization\<close>: a post to the CMS; a response carries what
    \<^verbatim>\<open>response.json()\<close> gives, an exception or the decoded value.
  \<^item> \<open>session_post url json authorization\<close>: the post to the workflow webhook; a response
    carries its text.
\<close>

record env =
  requests_get :: "json \<Rightarrow> json \<Rightarrow> json \<Rightarrow> string http_result"
  temp_name :: string
  multipart_encoder :: "payload \<Rightarrow> exn option"
  requests_post :: "string \<Rightarrow> payload \<Rightarrow> authorization \<Rightarrow> (exn + json) http_result"
  session_post :: "string \<Rightarrow> json \<Rightarrow> authorization \<Rightarrow> string http_result"

section \<open>upload\_image\_to\_wordpress (lines 24-75)\<close>

definition media_url :: string where
  "media_url = ''https://sits.com/wp-json/wp/v2/media/''"

text \<open>
  \<^verbatim>\<open>'Basic ' + base64.b64encode((username + ':' + password).encode()).decode()\<close>:
  the concatenation raises \<open>TypeError\<close> unless both operands are strings.
\<close>

fun basic_auth :: "json \<Rightarrow> json \<Rightarrow> exn + authorization" where
  "basic_auth (JStr u) (JStr p) = Inr (Basic u p)"
| "basic_auth _ _ = Inl TypeError"

text \<open>
  The four statements that lines 57-62 and lines 97-101 share:
  \<^verbatim>\<open>response = requests.post(url, data=..., headers=headers, verify=False)\<close>,
  \<^verbatim>\<open>response.raise_for_status()\<close>, \<^verbatim>\<open>logger.info(message)\<close>,
  \<^verbatim>\<open>response_data = response.json()\<close>.
\<close>

definition post_and_decode ::
  "env \<Rightarrow> string \<Rightarrow> payload \<Rightarrow> authorization \<Rightarrow> string \<Rightarrow> json outcome \<times> event list" where
  "post_and_decode env url data auth message =
     (case requests_post env url data auth of
        Raises e \<Rightarrow> (Raised e, [Requests_post url data auth])
      | Response status response_json \<Rightarrow>
          (case raise_for_status status of
             Some e \<Rightarrow> (Raised e, [Requests_post url data auth])
           | None \<Rightarrow>
               (case response_json of
                  Inl e \<Rightarrow> (Raised e, [Requests_post url data auth, Log INFO message []])
                | Inr response_data \<Rightarrow>
                    (Returned response_data, [Requests_post url data auth, Log INFO message []]))))"

text \<open>
  \<^verbatim>\<open>response_data.get('id')\<close>: the value in a dictionary (\<^verbatim>\<open>None\<close> when the key is
  absent), \<open>AttributeError\<close> on any other value.
\<close>

fun get_id :: "json \<Rightarrow> exn + json" where
  "get_id (JDict d) = Inr (dict_get d ''id'')"
| "get_id _ = Inl AttributeError"

text \<open>
  Lines 38-64, run once the temporary file holds the downloaded bytes: the file is read
  back, the multipart body and the headers are built (\<^verbatim>\<open>title + '.jpg'\<close> raises
  \<open>TypeError\<close> unless the title is a string), the body is posted, and the \<^verbatim>\<open>id\<close> of
  the decoded response is returned.
\<close>

definition upload_saved ::
  "env \<Rightarrow> string \<Rightarrow> json \<Rightarrow> json \<Rightarrow> json \<Rightarrow> json \<Rightarrow> json \<Rightarrow> tmp_dir \<Rightarrow> json outcome \<times> event list" where
  "upload_saved env name alt description title username password files =
     (case files name of
        None \<Rightarrow> (Raised (OtherException ''FileNotFoundError''), [])
      | Some file_content \<Rightarrow>
          (case title of
             JStr t \<Rightarrow>
               (case multipart_encoder env
                       (Multipart_data (t @ ''.jpg'', file_content, ''image/jpg'') alt t description) of
                  Some e \<Rightarrow> (Raised e, [])
                | None \<Rightarrow>
                    (case basic_auth username password of
                       Inl e \<Rightarrow> (Raised e, [])
                     | Inr auth \<Rightarrow>
                         (case post_and_decode env media_url
                                 (Multipart_data (t @ ''.jpg'', file_content, ''image/jpg'') alt t description)
                                 auth ''Image uploaded successfully'' of
                            (Raised e, es) \<Rightarrow> (Raised e, es)
                          | (Returned response_data, es) \<Rightarrow>
                              (case get_id response_data of
                                 Inl e \<Rightarrow> (Raised e, es)
                               | Inr attachment_id \<Rightarrow> (Returned attachment_id, es)))))
           | _ \<Rightarrow> (Raised TypeError, [])))"

text \<open>
  The \<^verbatim>\<open>try\<close> block of lines 26-64. Besides the run it gives the value of the local
  \<^verbatim>\<open>temp_file\<close> when the block is left: \<open>None\<close> as long as no file was created, the
  name of the file afterwards. \<^verbatim>\<open>NamedTemporaryFile\<close> creates a file that did not exist;
  it raises \<open>FileExistsError\<close> when it finds no unused name, which here is the case when
  the only name the environment offers is taken.
\<close>

definition upload_try ::
  "env \<Rightarrow> json \<Rightarrow> json \<Rightarrow> json \<Rightarrow> json \<Rightarrow> json \<Rightarrow> json \<Rightarrow> tmp_dir \<Rightarrow> string option \<times> json run" where
  "upload_try env image_url alt description title username password files =
     (case requests_get env image_url username password of
        Raises e \<Rightarrow>
          (None,
           \<lparr>outcome = Raised e, tmp_files = files,
            events = [Log INFO ''Uploading image...'' [], Requests_get image_url username password]\<rparr>)
      | Response status content \<Rightarrow>
          (case raise_for_status status of
             Some e \<Rightarrow>
               (None,
                \<lparr>outcome = Raised e, tmp_files = files,
                 events = [Log INFO ''Uploading image...'' [], Requests_get image_url username password]\<rparr>)
           | None \<Rightarrow>
               (case files (temp_name env) of
                  Some _ \<Rightarrow>
                    (None,
                     \<lparr>outcome = Raised FileExistsError, tmp_files = files,
                      events = [Log INFO ''Uploading image...'' [],
                                Requests_get image_url username password,
                                Log INFO ''Image downloaded successfully'' []]\<rparr>)
                | None \<Rightarrow>
                    (case upload_saved env (temp_name env) alt description title username password
                            (files(temp_name env \<mapsto> content)) of
                       (r, es) \<Rightarrow>
                         (Some (temp_name env),
                          \<lparr>outcome = r, tmp_files = files(temp_name env \<mapsto> content),
                           events = [Log INFO ''Uploading image...'' [],
                                     Requests_get image_url username password,
                                     Log INFO ''Image downloaded successfully'' [],
                                     Temp_file_created (temp_name env),
                                     Log INFO ''Image saved to temporary file: %s''
                                       [Arg_str (temp_name env)]] @ es\<rparr>)))))"

text \<open>
  The \<^verbatim>\<open>finally\<close> block of lines 69-73, with \<^verbatim>\<open>os.unlink(temp_file.name)\<close>: the
  directory it leaves and the events it records.
\<close>

definition upload_finally :: "string option \<Rightarrow> tmp_dir \<Rightarrow> tmp_dir \<times> event list" where
  "upload_finally temp_file files =
     (case temp_file of
        None \<Rightarrow> (files, [])
      | Some name \<Rightarrow>
          (files(name := None), [Temp_file_unlinked name, Log INFO ''Temporary file deleted'' []]))"

text \<open>
  The whole function: a value returned by the \<^verbatim>\<open>try\<close> block is returned after the
  \<^verbatim>\<open>finally\<close> block; a \<open>RequestException\<close> is logged, the \<^verbatim>\<open>finally\<close> block runs and
  \<^verbatim>\<open>None\<close> is returned (line 75); any other exception leaves the function after the
  \<^verbatim>\<open>finally\<close> block.
\<close>

definition upload_image_to_wordpress ::
  "env \<Rightarrow> json \<Rightarrow> json \<Rightarrow> json \<Rightarrow> json \<Rightarrow> json \<Rightarrow> json \<Rightarrow> tmp_dir \<Rightarrow> json run" where
  "upload_image_to_wordpress env image_url alt description title username password files =
     (case upload_try env image_url alt description title username password files of
        (temp_file, t) \<Rightarrow>
          (case outcome t of
             Returned attachment_id \<Rightarrow>
               \<lparr>outcome = Returned attachment_id,
                tmp_files = fst (upload_finally temp_file (tmp_files t)),
                events = events t @ snd (upload_finally temp_file (tmp_files t))\<rparr>
           | Raised e \<Rightarrow>
               (if is_request_exception e
                then \<lparr>outcome = Returned JNull,
                      tmp_files = fst (upload_finally temp_file (tmp_files t)),
                      events = events t @ [Log ERROR ''Error uploading image: %s'' [Arg_exn e]]
                                 @ snd (upload_finally temp_file (tmp_files t))\<rparr>
                else \<lparr>outcome = Raised e,
                      tmp_files = fst (upload_finally temp_file (tmp_files t)),
                      events = events t @ snd (upload_finally temp_file (tmp_files t))\<rparr>)))"

section \<open>notify\_successful\_post (lines 116-140)\<close>

definition notify_url :: string where
  "notify_url = ''https://app.daply.co/api/1.1/wf/finish/''"

definition notify_token :: string where
  "notify_token = ''e498c614d60653c4dca590e36af58bb4''"

text \<open>The dictionary \<^verbatim>\<open>data\<close> of lines 119-123.\<close>

definition notify_data :: "json \<Rightarrow> json \<Rightarrow> json" where
  "notify_data post_id daprun_id =
     JDict [(''post_id'', post_id), (''status'', JStr ''successful''), (''daprun_id'', daprun_id)]"

text \<open>
  The function catches every exception (\<^verbatim>\<open>except Exception\<close>), so it always returns a
  boolean.
\<close>

definition notify_successful_post :: "env \<Rightarrow> json \<Rightarrow> json \<Rightarrow> bool \<times> event list" where
  "notify_successful_post env post_id daprun_id =
     (case session_post env notify_url (notify_data post_id daprun_id) (Bearer notify_token) of
        Raises e \<Rightarrow>
          (False,
           [Session_post notify_url (notify_data post_id daprun_id) (Bearer notify_token),
            Log ERROR ''Error in notify_successful_post: {e}'' [Arg_exn e]])
      | Response status response_text \<Rightarrow>
          (if status = 200
           then (True,
                 [Session_post notify_url (notify_data post_id daprun_id) (Bearer notify_token),
                  Log INFO ''Successfully notified: {url}'' [Arg_str notify_url]])
           else (False,
                 [Session_post notify_url (notify_data post_id daprun_id) (Bearer notify_token),
                  Log WARNING ''Failed to notify: {url}. Status code: {response.status}''
                    [Arg_str notify_url, Arg_nat status],
                  Log WARNING ''Response text: {response_text}'' [Arg_str response_text]])))"

section \<open>create\_post\_in\_wordpress (lines 77-114)\<close>

definition posts_url :: string where
  "posts_url = ''https://site.com/wp-json/wp/v2/posts''"

text \<open>\<^verbatim>\<open>s.replace(c, r)\<close> for a pattern of one character.\<close>

definition replace_char :: "char \<Rightarrow> string \<Rightarrow> string \<Rightarrow> string" where
  "replace_char c r s = concat (map (\<lambda>x. if x = c then r else [x]) s)"

text \<open>
  \<^verbatim>\<open>content.replace('"', '\\"').replace('\n', '\\n')\<close>: a double quote (0x22) becomes a
  backslash (0x5C) and a double quote, then a line feed (0x0A) becomes a backslash and
  the letter n.
\<close>

definition escape_content :: "string \<Rightarrow> string" where
  "escape_content content =
     replace_char (CHR 0x0A) [CHR 0x5C, CHR ''n''] (replace_char (CHR 0x22) [CHR 0x5C, CHR 0x22] content)"

text \<open>
  The integer that \<^verbatim>\<open>'%d' % v\<close> prints: \<^verbatim>\<open>True\<close> is 1, a float is truncated towards
  zero, an infinity raises \<open>OverflowError\<close>, NaN raises \<open>ValueError\<close>, and a value that
  is not a number raises \<open>TypeError\<close>.
\<close>

fun format_d :: "json \<Rightarrow> exn + int" where
  "format_d (JInt i) = Inr i"
| "format_d (JBool b) = Inr (if b then 1 else 0)"
| "format_d (JFloat (Finite r)) = Inr (if 0 \<le> r then \<lfloor>r\<rfloor> else \<lceil>r\<rceil>)"
| "format_d (JFloat (Infinity _)) = Inl OverflowError"
| "format_d (JFloat NaN) = Inl ValueError"
| "format_d _ = Inl TypeError"

text \<open>
  \<^verbatim>\<open>response_data['id']\<close>: the value in a dictionary that has the key, \<open>KeyError\<close> in
  one that has not, \<open>TypeError\<close> on any other value.
\<close>

fun subscript_id :: "json \<Rightarrow> exn + json" where
  "subscript_id (JDict d) = (case map_of d ''id'' of None \<Rightarrow> Inl KeyError | Some v \<Rightarrow> Inr v)"
| "subscript_id _ = Inl TypeError"

text \<open>
  Lines 81-106, the branch taken when the attachment id is truthy. The arguments of
  the template are evaluated first (\<^verbatim>\<open>content.replace\<close> raises \<open>AttributeError\<close> unless
  the content is a string), then the template is filled. The value the notifier
  returns is not used.
\<close>

definition create_post_with_media ::
  "env \<Rightarrow> json \<Rightarrow> json \<Rightarrow> json \<Rightarrow> json \<Rightarrow> json \<Rightarrow> json \<Rightarrow> json \<Rightarrow> json \<Rightarrow> json
     \<Rightarrow> json outcome \<times> event list" where
  "create_post_with_media env title author content status categories thumbnail_attachment_id
       username password daprun_id =
     (case content of
        JStr c \<Rightarrow>
          (case format_d thumbnail_attachment_id of
             Inl e \<Rightarrow> (Raised e, [])
           | Inr featured_media \<Rightarrow>
               (case basic_auth username password of
                  Inl e \<Rightarrow> (Raised e, [])
                | Inr auth \<Rightarrow>
                    (case post_and_decode env posts_url
                            (Post_data title author (escape_content c) status categories featured_media)
                            auth ''Post created successfully'' of
                       (Raised e, es) \<Rightarrow> (Raised e, es)
                     | (Returned response_data, es) \<Rightarrow>
                         (case subscript_id response_data of
                            Inl e \<Rightarrow> (Raised e, es)
                          | Inr post_id \<Rightarrow>
                              (Returned response_data,
                               es @ snd (notify_successful_post env post_id daprun_id))))))
      | _ \<Rightarrow> (Raised AttributeError, []))"

text \<open>The \<^verbatim>\<open>try\<close> block of lines 79-109.\<close>

definition create_post_try ::
  "env \<Rightarrow> json \<Rightarrow> json \<Rightarrow> json \<Rightarrow> json \<Rightarrow> json \<Rightarrow> json \<Rightarrow> json \<Rightarrow> json \<Rightarrow> json \<Rightarrow> json \<Rightarrow> json \<Rightarrow> tmp_dir
     \<Rightarrow> json run" where
  "create_post_try env title author content status categories thumbnail_url alt description
       username password daprun_id files =
     (let u = upload_image_to_wordpress env thumbnail_url alt description title username password files
      in case outcome u of
           Raised e \<Rightarrow> u
         | Returned thumbnail_attachment_id \<Rightarrow>
             (if truthy thumbnail_attachment_id
              then (case create_post_with_media env title author content status categories
                           thumbnail_attachment_id username password daprun_id of
                      (r, es) \<Rightarrow> \<lparr>outcome = r, tmp_files = tmp_files u, events = events u @ es\<rparr>)
              else \<lparr>outcome = Returned JNull, tmp_files = tmp_files u,
                    events = events u @ [Log ERROR ''Failed to upload image, cannot create post'' []]\<rparr>))"

text \<open>
  The whole function: a \<open>RequestException\<close> of the \<^verbatim>\<open>try\<close> block is logged and \<^verbatim>\<open>None\<close>
  is returned (line 114); any other exception leaves the function.
\<close>

definition create_post_in_wordpress ::
  "env \<Rightarrow> json \<Rightarrow> json \<Rightarrow> json \<Rightarrow> json \<Rightarrow> json \<Rightarrow> json \<Rightarrow> json \<Rightarrow> json \<Rightarrow> json \<Rightarrow> json \<Rightarrow> json \<Rightarrow> tmp_dir
     \<Rightarrow> json run" where
  "create_post_in_wordpress env title author content status categories thumbnail_url alt description
       username password daprun_id files =
     (let t = create_post_try env title author content status categories thumbnail_url alt
                description username password daprun_id files
      in case outcome t of
           Returned r \<Rightarrow> t
         | Raised e \<Rightarrow>
             (if is_request_exception e
              then \<lparr>outcome = Returned JNull, tmp_files = tmp_files t,
                    events = events t @ [Log ERROR ''Error creating post: %s'' [Arg_exn e]]\<rparr>
              else t))"

section \<open>process\_media\_and\_post\_async (lines 145-173)\<close>

text \<open>
  Lines 158-167. \<open>loads\<close> is Python's \<^verbatim>\<open>json.loads\<close>, a function of the standard
  library and a parameter here: it gives the decoded value, or the detail of the
  \<open>JSONDecodeError\<close> it raises. The step gives the categories to go on with, or the
  error record that is logged before the pipeline returns.
\<close>

fun decode_categories :: "(string \<Rightarrow> string + json) \<Rightarrow> json \<Rightarrow> event + json" where
  "decode_categories loads (JStr s) =
     (case loads s of
        Inl detail \<Rightarrow>
          Inl (Log ERROR ''Error processing categories: %s'' [Arg_exn (JSONDecodeError detail)])
      | Inr decoded \<Rightarrow> Inr decoded)"
| "decode_categories loads (JList xs) = Inr (JList xs)"
| "decode_categories loads categories =
     Inl (Log ERROR ''Categories should be a list or a JSON-encoded string representing a list'' [])"

text \<open>Lines 169-173: the presence check, and the call of the post creation.\<close>

definition check_required_parameters ::
  "env \<Rightarrow> json \<Rightarrow> json \<Rightarrow> json \<Rightarrow> json \<Rightarrow> json \<Rightarrow> json \<Rightarrow> json \<Rightarrow> json \<Rightarrow> json \<Rightarrow> json \<Rightarrow> json \<Rightarrow> tmp_dir
     \<Rightarrow> unit run" where
  "check_required_parameters env title author content status categories thumbnail_url alt description
       username password daprun_id files =
     (if truthy title \<and> truthy author \<and> truthy content \<and> truthy status \<and> truthy categories
         \<and> truthy thumbnail_url \<and> truthy alt \<and> truthy description \<and> truthy username
         \<and> truthy password \<and> truthy daprun_id
      then (let c = create_post_in_wordpress env title author content status categories thumbnail_url
                      alt description username password daprun_id files
            in \<lparr>outcome = (case outcome c of Returned _ \<Rightarrow> Returned () | Raised e \<Rightarrow> Raised e),
                tmp_files = tmp_files c,
                events = Log INFO ''All required parameters are present'' [] # events c\<rparr>)
      else \<lparr>outcome = Returned (), tmp_files = files,
            events = [Log ERROR ''Missing required parameters'' []]\<rparr>)"

text \<open>
  The whole function. \<^verbatim>\<open>req_data.get\<close> raises \<open>AttributeError\<close> when the decoded request
  body is not a dictionary.
\<close>

definition process_media_and_post_async ::
  "(string \<Rightarrow> string + json) \<Rightarrow> env \<Rightarrow> json \<Rightarrow> tmp_dir \<Rightarrow> unit run" where
  "process_media_and_post_async loads env req_data files =
     (case req_data of
        JDict d \<Rightarrow>
          (case decode_categories loads (dict_get d ''categories'') of
             Inl error_record \<Rightarrow>
               \<lparr>outcome = Returned (), tmp_files = files, events = [error_record]\<rparr>
           | Inr categories \<Rightarrow>
               check_required_parameters env (dict_get d ''title'') (dict_get d ''author'')
                 (dict_get d ''content'') (dict_get d ''status'') categories
                 (dict_get d ''thumbnail_url'') (dict_get d ''alt_text'') (dict_get d ''description'')
                 (dict_get d ''username'') (dict_get d ''password'') (dict_get d ''daprun_id'') files)
      | _ \<Rightarrow> \<lparr>outcome = Raised AttributeError, tmp_files = files, events = []\<rparr>)"

text \<open>Lines 142-143: \<^verbatim>\<open>asyncio.run\<close> runs the coroutine to its end.\<close>

definition process_media_and_post ::
  "(string \<Rightarrow> string + json) \<Rightarrow> env \<Rightarrow> json \<Rightarrow> tmp_dir \<Rightarrow> unit run" where
  "process_media_and_post loads env req_data files =
     process_media_and_post_async loads env req_data files"

section \<open>create\_post, the request handler (lines 176-204)\<close>

definition API_KEY :: string where
  "API_KEY = ''Sample_Key''"

text \<open>
  What \<^verbatim>\<open>await request.json()\<close> gives for the body of a request: a \<open>JSONDecodeError\<close>
  with its detail for a body that is not JSON, another exception with its text (a body
  that cannot be read or decoded to text), or the decoded value.
\<close>

datatype request_json = Malformed string | Unreadable string | Parsed json

record request =
  key_header :: "string option"
  json_body :: request_json

text \<open>\<^verbatim>\<open>web.json_response(data, status=...)\<close>.\<close>

datatype web_response = Json_response json nat

text \<open>
  \<^verbatim>\<open>json.dumps(req_data)\<close> of line 184 raises \<open>TypeError\<close> or \<open>ValueError\<close> on an object
  that JSON cannot express. \<^verbatim>\<open>req_data\<close> was decoded from JSON, and every value of type
  \<open>json\<close> is expressible, so the call raises on none of them.
\<close>

definition json_dumps_error :: "json \<Rightarrow> string option" where
  "json_dumps_error v = None"

text \<open>
  What the handler does: the response it returns, the argument of the background
  thread when it started one
  (\<^verbatim>\<open>Thread(target=process_media_and_post, args=(req_data,)).start()\<close>), and the
  records it logged.
\<close>

record handled =
  response :: web_response
  thread_started :: "json option"
  logged :: "event list"

definition create_post :: "request \<Rightarrow> handled" where
  "create_post request =
     (case json_body request of
        Malformed detail \<Rightarrow>
          \<lparr>response = Json_response (JDict [(''message'', JStr ''Invalid JSON format'')]) 400,
           thread_started = None,
           logged = [Log ERROR ''Error processing request JSON: %s'' [Arg_exn (JSONDecodeError detail)]]\<rparr>
      | Unreadable detail \<Rightarrow>
          \<lparr>response = Json_response (JDict [(''message'', JStr (''Internal server error: '' @ detail))]) 500,
           thread_started = None,
           logged = [Log ERROR ''Error processing request: %s'' [Arg_exn (OtherException detail)]]\<rparr>
      | Parsed req_data \<Rightarrow>
          (case json_dumps_error req_data of
             Some detail \<Rightarrow>
               \<lparr>response = Json_response (JDict [(''message'', JStr (''Invalid JSON format: '' @ detail))]) 400,
                thread_started = None,
                logged = [Log INFO ''Received request data: %s'' [Arg_json req_data],
                          Log ERROR ''Invalid JSON format: %s'' [Arg_str detail]]\<rparr>
           | None \<Rightarrow>
               (if key_header request = Some API_KEY
                then \<lparr>response = Json_response (JDict [(''message'', JStr ''Key authentication successful'')]) 200,
                      thread_started = Some req_data,
                      logged = [Log INFO ''Received request data: %s'' [Arg_json req_data],
                                Log INFO ''Key authentication successful'' []]\<rparr>
                else \<lparr>response = Json_response (JDict [(''message'', JStr ''Key authentication failed'')]) 401,
                      thread_started = None,
                      logged = [Log INFO ''Received request data: %s'' [Arg_json req_data],
                                Log ERROR ''Key authentication failed'' []]\<rparr>)))"

text \<open>
  A request served to the end: the handler answers, and the thread it started, if any,
  runs the pipeline. The response is the handler's; the run holds the records of the
  handler followed by the events of the pipeline.
\<close>

definition serve ::
  "(string \<Rightarrow> string + json) \<Rightarrow> env \<Rightarrow> request \<Rightarrow> tmp_dir \<Rightarrow> web_response \<times> unit run" where
  "serve loads env request files =
     (case thread_started (create_post request) of
        None \<Rightarrow>
          (response (create_post request),
           \<lparr>outcome = Returned (), tmp_files = files, events = logged (create_post request)\<rparr>)
      | Some req_data \<Rightarrow>
          (let p = process_media_and_post loads env req_data files
           in (response (create_post request),
               \<lparr>outcome = outcome p, tmp_files = tmp_files p,
                events = logged (create_post request) @ events p\<rparr>)))"

section \<open>Reading the events of a run\<close>

text \<open>The calls to an upstream server, of any kind.\<close>

fun is_upstream_call :: "event \<Rightarrow> bool" where
  "is_upstream_call (Requests_get _ _ _) = True"
| "is_upstream_call (Requests_post _ _ _) = True"
| "is_upstream_call (Session_post _ _ _) = True"
| "is_upstream_call _ = False"

definition upstream_calls :: "event list \<Rightarrow> event list" where
  "upstream_calls es = filter is_upstream_call es"

text \<open>A log record.\<close>

fun is_log :: "event \<Rightarrow> bool" where
  "is_log (Log _ _ _) = True"
| "is_log _ = False"

text \<open>A post to the CMS posts endpoint, a call to the workflow webhook.\<close>

fun is_posts_call :: "event \<Rightarrow> bool" where
  "is_posts_call (Requests_post url _ _) = (url = posts_url)"
| "is_posts_call _ = False"

fun is_notify_call :: "event \<Rightarrow> bool" where
  "is_notify_call (Session_post _ _ _) = True"
| "is_notify_call _ = False"

text \<open>
  What the CMS answered to a post to the media endpoint, when it answered with success
  and a dictionary: the \<^verbatim>\<open>id\<close> of the dictionary (\<^verbatim>\<open>None\<close> when it has none), which is
  the value the upload then returns.
\<close>

fun media_answer :: "env \<Rightarrow> event \<Rightarrow> json option" where
  "media_answer env (Requests_post url data auth) =
     (if url = media_url
      then (case requests_post env url data auth of
              Response status (Inr (JDict d)) \<Rightarrow>
                (if raise_for_status status = None then Some (dict_get d ''id'') else None)
            | _ \<Rightarrow> None)
      else None)"
| "media_answer env _ = None"

text \<open>The upload returned a media identifier: the answer carries a truthy \<^verbatim>\<open>id\<close>.\<close>

definition media_answered_with_id :: "env \<Rightarrow> event \<Rightarrow> bool" where
  "media_answered_with_id env e = (case media_answer env e of None \<Rightarrow> False | Some v \<Rightarrow> truthy v)"

text \<open>
  What the CMS answered to a post to the posts endpoint, when it answered with success
  and a dictionary that has an \<^verbatim>\<open>id\<close>: that \<^verbatim>\<open>id\<close>.
\<close>

fun posts_answer :: "env \<Rightarrow> event \<Rightarrow> json option" where
  "posts_answer env (Requests_post url data auth) =
     (if url = posts_url
      then (case requests_post env url data auth of
              Response status (Inr (JDict d)) \<Rightarrow>
                (if raise_for_status status = None then map_of d ''id'' else None)
            | _ \<Rightarrow> None)
      else None)"
| "posts_answer env _ = None"

text \<open>The post creation succeeded: success and an \<^verbatim>\<open>id\<close>.\<close>

definition posts_answered_with_id :: "env \<Rightarrow> event \<Rightarrow> bool" where
  "posts_answered_with_id env e = (posts_answer env e \<noteq> None)"

text \<open>
  \<open>guarded P Q es\<close>: in the list \<open>es\<close> no event with \<open>Q\<close> comes before the first event
  with \<open>P\<close>; so an event with \<open>Q\<close> occurs only after one with \<open>P\<close>.
\<close>

fun guarded :: "(event \<Rightarrow> bool) \<Rightarrow> (event \<Rightarrow> bool) \<Rightarrow> event list \<Rightarrow> bool" where
  "guarded P Q [] = True"
| "guarded P Q (e # es) = (if P e then True else \<not> Q e \<and> guarded P Q es)"

section \<open>Fields of a request\<close>

text \<open>The required fields other than \<^verbatim>\<open>categories\<close>, by the keys the pipeline reads.\<close>

definition text_fields :: "string list" where
  "text_fields = [''title'', ''author'', ''content'', ''status'', ''thumbnail_url'', ''alt_text'',
                  ''description'', ''username'', ''password'', ''daprun_id'']"

text \<open>A dictionary without a key: the request in which the field is missing.\<close>

definition dict_remove :: "string \<Rightarrow> (string \<times> json) list \<Rightarrow> (string \<times> json) list" where
  "dict_remove k d = filter (\<lambda>kv. fst kv \<noteq> k) d"

section \<open>A decoder and an environment to run the program on\<close>

text \<open>
  A decoder for the JSON documents built from \<^verbatim>\<open>null\<close>, \<^verbatim>\<open>true\<close>, \<^verbatim>\<open>false\<close>, integers,
  strings without escapes, and arrays of these, with white space between the tokens.
  On such a document it gives the value \<^verbatim>\<open>json.loads\<close> gives; any other text it
  reports as an error. It is one decoder the parameter \<open>loads\<close> can be, used to run the
  pipeline on concrete requests; no property below is proved of it alone. The recursion
  is bounded by the length of the text, which it never reaches.
\<close>

definition is_ws :: "char \<Rightarrow> bool" where
  "is_ws c = (c = CHR 0x20 \<or> c = CHR 0x09 \<or> c = CHR 0x0A \<or> c = CHR 0x0D)"

definition is_digit :: "char \<Rightarrow> bool" where
  "is_digit c = (48 \<le> (of_char c :: nat) \<and> (of_char c :: nat) \<le> 57)"

definition digits_value :: "string \<Rightarrow> int" where
  "digits_value ds = foldl (\<lambda>a c. 10 * a + (int (of_char c) - 48)) 0 ds"

definition skip_ws :: "string \<Rightarrow> string" where
  "skip_ws cs = dropWhile is_ws cs"

text \<open>An unsigned integer literal: a single 0, or digits that do not start with 0.\<close>

definition parse_digits :: "string \<Rightarrow> (int \<times> string) option" where
  "parse_digits cs =
     (case cs of
        [] \<Rightarrow> None
      | c # rest \<Rightarrow>
          (if c = CHR ''0'' then Some (0, rest)
           else if is_digit c then Some (digits_value (takeWhile is_digit cs), dropWhile is_digit cs)
           else None))"

definition parse_string :: "string \<Rightarrow> (string \<times> string) option" where
  "parse_string cs =
     (let s = takeWhile (\<lambda>c. c \<noteq> CHR 0x22) cs; rest = dropWhile (\<lambda>c. c \<noteq> CHR 0x22) cs
      in if rest = [] \<or> (\<exists>c\<in>set s. c = CHR 0x5C \<or> (of_char c :: nat) < 32) then None
         else Some (s, tl rest))"

fun parse_value :: "nat \<Rightarrow> string \<Rightarrow> (json \<times> string) option"
  and parse_elements :: "nat \<Rightarrow> string \<Rightarrow> (json list \<times> string) option" where
  "parse_value 0 cs = None"
| "parse_value (Suc n) cs =
     (case cs of
        [] \<Rightarrow> None
      | c # rest \<Rightarrow>
          (if c = CHR ''['' then
             (case skip_ws rest of
                [] \<Rightarrow> None
              | d # rest' \<Rightarrow>
                  (if d = CHR '']'' then Some (JList [], rest')
                   else map_option (\<lambda>(xs, r). (JList xs, r)) (parse_elements n (d # rest'))))
           else if c = CHR 0x22 then map_option (\<lambda>(s, r). (JStr s, r)) (parse_string rest)
           else if c = CHR ''-'' then map_option (\<lambda>(i, r). (JInt (- i), r)) (parse_digits rest)
           else if is_digit c then map_option (\<lambda>(i, r). (JInt i, r)) (parse_digits cs)
           else if take 4 cs = ''null'' then Some (JNull, drop 4 cs)
           else if take 4 cs = ''true'' then Some (JBool True, drop 4 cs)
           else if take 5 cs = ''false'' then Some (JBool False, drop 5 cs)
           else None))"
| "parse_elements 0 cs = None"
| "parse_elements (Suc n) cs =
     (case parse_value n cs of
        None \<Rightarrow> None
      | Some (v, rest) \<Rightarrow>
          (case skip_ws rest of
             [] \<Rightarrow> None
           | d # rest' \<Rightarrow>
               (if d = CHR '']'' then Some ([v], rest')
                else if d = CHR '','' then
                  map_option (\<lambda>(vs, r). (v # vs, r)) (parse_elements n (skip_ws rest'))
                else None)))"

definition json_loads :: "string \<Rightarrow> string + json" where
  "json_loads s =
     (case parse_value (Suc (length s)) (skip_ws s) of
        None \<Rightarrow> Inl ''Expecting value''
      | Some (v, rest) \<Rightarrow> (if skip_ws rest = [] then Inr v else Inl ''Extra data''))"

text \<open>An environment in which every upstream call succeeds.\<close>

definition sample_env :: env where
  "sample_env =
     \<lparr>requests_get = (\<lambda>url username password. Response 200 ''JPEG''),
      temp_name = ''tmp/3f2a_k1.jpg'',
      multipart_encoder = (\<lambda>fields. None),
      requests_post = (\<lambda>url data auth.
         if url = media_url then Response 201 (Inr (JDict [(''id'', JInt 42)]))
         else Response 201 (Inr (JDict [(''id'', JInt 7)]))),
      session_post = (\<lambda>url data auth. Response 200 ''ok'')\<rparr>"

text \<open>The sample environment, but the CMS answers every post with the given JSON value.\<close>

definition env_answering :: "json \<Rightarrow> env" where
  "env_answering body =
     sample_env\<lparr>requests_post := (\<lambda>url data auth. Response 201 (Inr body))\<rparr>"

text \<open>The post creation on sample arguments, in an empty temporary directory.\<close>

definition sample_create_post :: "env \<Rightarrow> json run" where
  "sample_create_post env =
     create_post_in_wordpress env (JStr ''T'') (JStr ''1'') (JStr ''Hello'') (JStr ''publish'')
       (JList [JInt 1]) (JStr ''https://img.example/a.jpg'') (JStr ''alt'') (JStr ''desc'')
       (JStr ''user'') (JStr ''pw'') (JStr ''run-1'') Map.empty"

text \<open>The fields of a complete request, with the given title and categories.\<close>

definition sample_fields :: "json \<Rightarrow> json \<Rightarrow> (string \<times> json) list" where
  "sample_fields title categories =
     [(''title'', title), (''author'', JStr ''1''), (''content'', JStr ''Hello''),
      (''status'', JStr ''publish''), (''categories'', categories),
      (''thumbnail_url'', JStr ''https://img.example/a.jpg''), (''alt_text'', JStr ''alt''),
      (''description'', JStr ''desc''), (''username'', JStr ''user''), (''password'', JStr ''pw''),
      (''daprun_id'', JStr ''run-1'')]"

text \<open>
  The pipeline run on such a request, with the decoder above, in the sample environment
  and an empty temporary directory.
\<close>

definition sample_pipeline :: "json \<Rightarrow> json \<Rightarrow> unit run" where
  "sample_pipeline title categories =
     process_media_and_post_async json_loads sample_env (JDict (sample_fields title categories))
       Map.empty"

section \<open>Lemmas\<close>

lemmas dec_defs = json_loads_def skip_ws_def is_ws_def is_digit_def digits_value_def parse_digits_def
  parse_string_def

lemmas run_defs = process_media_and_post_def process_media_and_post_async_def
  check_required_parameters_def create_post_in_wordpress_def create_post_try_def
  create_post_with_media_def upload_image_to_wordpress_def upload_try_def upload_saved_def
  upload_finally_def post_and_decode_def notify_successful_post_def notify_data_def
  raise_for_status_def dict_get_def sample_env_def sample_fields_def escape_content_def
  replace_char_def media_url_def posts_url_def notify_url_def notify_token_def

lemma basic_auth_Inr: "basic_auth u p = Inr a \<longleftrightarrow> (\<exists>x y. u = JStr x \<and> p = JStr y \<and> a = Basic x y)"
  by (cases "(u, p)" rule: basic_auth.cases) auto

lemma urls_differ: "media_url \<noteq> posts_url" "posts_url \<noteq> media_url"
  by (simp_all add: media_url_def posts_url_def)

lemma guarded_append:
  "\<forall>e\<in>set xs. \<not> Q e \<Longrightarrow> guarded P Q (xs @ ys) = ((\<exists>e\<in>set xs. P e) \<or> guarded P Q ys)"
  by (induction xs) auto

lemma guarded_no_Q: "\<forall>e\<in>set xs. \<not> Q e \<Longrightarrow> guarded P Q xs"
  by (induction xs) auto

lemma guarded_only_if: "guarded P Q es \<Longrightarrow> \<exists>e\<in>set es. Q e \<Longrightarrow> \<exists>e\<in>set es. P e"
  by (induction es) (auto split: if_splits)

subsection \<open>post\_and\_decode\<close>

lemma pd_events:
  "post_and_decode env url data auth message = (r, es) \<Longrightarrow> e \<in> set es
     \<Longrightarrow> e = Requests_post url data auth \<or> e = Log INFO message []"
  unfolding post_and_decode_def
  by (auto split: http_result.splits option.splits sum.splits)

lemma pd_Returned:
  "post_and_decode env url data auth message = (Returned v, es) \<Longrightarrow>
     es = [Requests_post url data auth, Log INFO message []]
     \<and> (\<exists>status. requests_post env url data auth = Response status (Inr v) \<and> raise_for_status status = None)"
  unfolding post_and_decode_def
  by (auto split: http_result.splits option.splits sum.splits)

lemma pd_determined:
  "post_and_decode env url data auth message = (r, es) \<Longrightarrow> Requests_post url' data' auth' \<in> set es
     \<Longrightarrow> requests_post env url' data' auth' = Response status (Inr x) \<Longrightarrow> raise_for_status status = None
     \<Longrightarrow> r = Returned x"
  unfolding post_and_decode_def
  by (auto split: http_result.splits option.splits sum.splits)

lemma get_id_Inr: "get_id x = Inr v \<longleftrightarrow> (\<exists>d. x = JDict d \<and> v = dict_get d ''id'')"
  by (cases x) auto

lemma media_answer_Some:
  "media_answer env e = Some v \<longleftrightarrow>
     (\<exists>data auth status d. e = Requests_post media_url data auth
        \<and> requests_post env media_url data auth = Response status (Inr (JDict d))
        \<and> raise_for_status status = None \<and> v = dict_get d ''id'')"
  by (cases e) (auto split: http_result.splits sum.splits json.splits if_splits)

subsection \<open>upload\_saved\<close>

lemma us_events:
  "upload_saved env name alt description title username password files = (r, es) \<Longrightarrow> e \<in> set es
     \<Longrightarrow> (\<exists>data auth. e = Requests_post media_url data auth) \<or> e = Log INFO ''Image uploaded successfully'' []"
  unfolding upload_saved_def
  by (auto split: option.splits json.splits sum.splits prod.splits outcome.splits dest: pd_events)

lemma us_answer:
  "upload_saved env name alt description title username password files = (r, es) \<Longrightarrow> e \<in> set es
     \<Longrightarrow> media_answer env e = Some v \<Longrightarrow> r = Returned v"
  unfolding upload_saved_def media_answer_Some
  by (auto split: option.splits json.splits sum.splits prod.splits outcome.splits
        dest: pd_determined simp: get_id_Inr)

lemma us_Returned:
  "upload_saved env name alt description title username password files = (Returned v, es)
     \<Longrightarrow> \<exists>e\<in>set es. media_answer env e = Some v"
  unfolding upload_saved_def media_answer_Some
  by (auto split: option.splits json.splits sum.splits prod.splits outcome.splits
        dest!: pd_Returned simp: get_id_Inr)


subsection \<open>upload\_image\_to\_wordpress\<close>

lemmas upload_defs = upload_image_to_wordpress_def upload_try_def upload_finally_def

lemma upload_tmp_files:
  "tmp_files (upload_image_to_wordpress env image_url alt description title username password files) = files"
  unfolding upload_defs
  by (auto split: http_result.splits option.splits prod.splits outcome.splits)

lemma upload_events:
  "e \<in> set (events (upload_image_to_wordpress env image_url alt description title username password files))
     \<Longrightarrow> \<not> is_posts_call e \<and> \<not> is_notify_call e \<and> posts_answer env e = None"
  unfolding upload_defs
  by (auto split: http_result.splits option.splits prod.splits outcome.splits if_splits
        dest!: us_events simp: urls_differ)

lemma upload_answer:
  "e \<in> set (events (upload_image_to_wordpress env image_url alt description title username password files))
     \<Longrightarrow> media_answer env e = Some v
     \<Longrightarrow> outcome (upload_image_to_wordpress env image_url alt description title username password files)
           = Returned v"
  unfolding upload_defs
  by (auto split: http_result.splits option.splits prod.splits outcome.splits if_splits
        dest: us_answer)

lemma upload_Returned:
  "outcome (upload_image_to_wordpress env image_url alt description title username password files)
       = Returned v \<Longrightarrow> truthy v
     \<Longrightarrow> \<exists>e\<in>set (events (upload_image_to_wordpress env image_url alt description title username password files)).
           media_answer env e = Some v"
  unfolding upload_defs
  by (auto split: http_result.splits option.splits prod.splits outcome.splits if_splits
        dest: us_Returned)

lemma upload_created:
  "Temp_file_created n \<in> set (events (upload_image_to_wordpress env image_url alt description title username password files))
     \<Longrightarrow> n = temp_name env \<and> files n = None
         \<and> Temp_file_unlinked n \<in> set (events (upload_image_to_wordpress env image_url alt description title username password files))"
  unfolding upload_defs
  by (auto split: http_result.splits option.splits prod.splits outcome.splits if_splits
        dest: us_events)


subsection \<open>notify\_successful\_post\<close>

lemma notify_filter:
  "filter is_notify_call (snd (notify_successful_post env post_id daprun_id))
     = [Session_post notify_url (notify_data post_id daprun_id) (Bearer notify_token)]"
  unfolding notify_successful_post_def
  by (auto split: http_result.splits)

lemma notify_other:
  "e \<in> set (snd (notify_successful_post env post_id daprun_id))
     \<Longrightarrow> \<not> is_posts_call e \<and> media_answer env e = None \<and> posts_answer env e = None"
  unfolding notify_successful_post_def
  by (auto split: http_result.splits if_splits)


subsection \<open>create\_post\_with\_media\<close>

lemma subscript_id_Inr: "subscript_id x = Inr v \<longleftrightarrow> (\<exists>d. x = JDict d \<and> map_of d ''id'' = Some v)"
  by (cases x) (auto split: option.splits)

lemma subscript_id_Inl: "subscript_id x = Inl e \<Longrightarrow> \<forall>d. x = JDict d \<longrightarrow> map_of d ''id'' = None"
  by (cases x) (auto split: option.splits)

text \<open>The runs of create_post_with_media, by the events they record.\<close>

lemma cm_shape:
  assumes "create_post_with_media env title author content status categories attachment_id
             username password daprun_id = (r, es)"
  shows "(es = [] \<and> (\<exists>x. r = Raised x))
       \<or> (\<exists>c featured_media u p.
             content = JStr c \<and> format_d attachment_id = Inr featured_media
           \<and> username = JStr u \<and> password = JStr p
           \<and> (let call = Requests_post posts_url
                            (Post_data title author (escape_content c) status categories featured_media)
                            (Basic u p)
              in (posts_answer env call = None \<and> (\<exists>x. r = Raised x)
                    \<and> (es = [call] \<or> es = [call, Log INFO ''Post created successfully'' []]))
               \<or> (\<exists>post_id. posts_answer env call = Some post_id \<and> (\<exists>d. r = Returned (JDict d))
                    \<and> es = [call, Log INFO ''Post created successfully'' []]
                             @ snd (notify_successful_post env post_id daprun_id))))"
  using assms
  unfolding create_post_with_media_def post_and_decode_def Let_def
  by (auto split: json.splits sum.splits http_result.splits option.splits
        simp: basic_auth_Inr subscript_id_Inr dest: subscript_id_Inl)


lemma notify_posts_answer:
  "e \<in> set (snd (notify_successful_post env post_id daprun_id)) \<Longrightarrow> posts_answer env e = None"
  by (simp add: notify_other)

lemma notify_media_answer:
  "e \<in> set (snd (notify_successful_post env post_id daprun_id)) \<Longrightarrow> media_answer env e = None"
  by (simp add: notify_other)

lemma notify_not_posts_call:
  "e \<in> set (snd (notify_successful_post env post_id daprun_id)) \<Longrightarrow> \<not> is_posts_call e"
  by (simp add: notify_other)

lemma cm_media_answer:
  assumes "create_post_with_media env title author content status categories attachment_id
             username password daprun_id = (r, es)" and "e \<in> set es"
  shows "media_answer env e = None"
  using cm_shape [OF assms(1)] assms(2)
  by (auto simp: Let_def urls_differ notify_media_answer)

lemma cm_posts_call:
  assumes "create_post_with_media env title author content status categories attachment_id
             username password daprun_id = (r, es)" and "e \<in> set es" and "is_posts_call e"
  shows "\<exists>c featured_media u p.
           content = JStr c \<and> format_d attachment_id = Inr featured_media \<and>
           e = Requests_post posts_url
                 (Post_data title author (escape_content c) status categories featured_media) (Basic u p)"
  using cm_shape [OF assms(1)] assms(2,3)
  by (auto simp: Let_def notify_not_posts_call)

lemma cm_notify:
  assumes "create_post_with_media env title author content status categories attachment_id
             username password daprun_id = (r, es)" and "e \<in> set es"
      and "posts_answer env e = Some post_id"
  shows "filter is_notify_call es
           = [Session_post notify_url (notify_data post_id daprun_id) (Bearer notify_token)]"
  using cm_shape [OF assms(1)] assms(2,3)
  by (auto simp: Let_def notify_filter notify_posts_answer)

lemma cm_guarded:
  assumes "create_post_with_media env title author content status categories attachment_id
             username password daprun_id = (r, es)"
  shows "guarded (posts_answered_with_id env) is_notify_call es"
  using cm_shape [OF assms(1)]
  by (auto simp: Let_def posts_answered_with_id_def)


subsection \<open>The directory after a run\<close>

lemma create_post_try_tmp_files:
  "tmp_files (create_post_try env title author content status categories thumbnail_url alt description
       username password daprun_id files) = files"
  unfolding create_post_try_def Let_def
  by (simp add: upload_tmp_files split: outcome.split prod.split)

lemma create_post_in_wordpress_tmp_files:
  "tmp_files (create_post_in_wordpress env title author content status categories thumbnail_url alt
       description username password daprun_id files) = files"
  unfolding create_post_in_wordpress_def Let_def
  by (simp add: create_post_try_tmp_files split: outcome.split)

lemma process_tmp_files:
  "tmp_files (process_media_and_post_async loads env req_data files) = files"
  unfolding process_media_and_post_async_def check_required_parameters_def Let_def
  by (simp add: create_post_in_wordpress_tmp_files split: json.split sum.split)

subsection \<open>Log records among the events\<close>

lemma is_log_simps:
  "is_log e \<Longrightarrow> \<not> is_posts_call e" "is_log e \<Longrightarrow> \<not> is_notify_call e"
  "is_log e \<Longrightarrow> media_answer env e = None" "is_log e \<Longrightarrow> posts_answer env e = None"
  "is_log e \<Longrightarrow> \<not> is_upstream_call e"
  by (cases e; simp)+

lemma guarded_append_right:
  "guarded P Q es \<Longrightarrow> \<forall>e\<in>set post. \<not> Q e \<Longrightarrow> guarded P Q (es @ post)"
  by (induction es) (auto intro: guarded_no_Q)

lemma guarded_logs:
  assumes "guarded P Q es" and "\<forall>e\<in>set pre. \<not> P e \<and> \<not> Q e" and "\<forall>e\<in>set post. \<not> Q e"
  shows "guarded P Q (pre @ es @ post)"
  using assms(2) guarded_append_right [OF assms(1,3)]
  by (induction pre) auto

subsection \<open>create\_post\_try\<close>

lemma ct_shape:
  "(\<exists>x. outcome (upload_image_to_wordpress env thumbnail_url alt description title username password files)
          = Raised x
      \<and> create_post_try env title author content status categories thumbnail_url alt description
            username password daprun_id files
          = upload_image_to_wordpress env thumbnail_url alt description title username password files)
   \<or> (\<exists>v. outcome (upload_image_to_wordpress env thumbnail_url alt description title username password files)
            = Returned v \<and> \<not> truthy v
        \<and> outcome (create_post_try env title author content status categories thumbnail_url alt description
                      username password daprun_id files) = Returned JNull
        \<and> events (create_post_try env title author content status categories thumbnail_url alt description
                     username password daprun_id files)
            = events (upload_image_to_wordpress env thumbnail_url alt description title username password files)
                @ [Log ERROR ''Failed to upload image, cannot create post'' []])
   \<or> (\<exists>v r es. outcome (upload_image_to_wordpress env thumbnail_url alt description title username password files)
            = Returned v \<and> truthy v
        \<and> create_post_with_media env title author content status categories v username password daprun_id
            = (r, es)
        \<and> outcome (create_post_try env title author content status categories thumbnail_url alt description
                      username password daprun_id files) = r
        \<and> events (create_post_try env title author content status categories thumbnail_url alt description
                     username password daprun_id files)
            = events (upload_image_to_wordpress env thumbnail_url alt description title username password files)
                @ es)"
  unfolding create_post_try_def Let_def
  by (cases "outcome (upload_image_to_wordpress env thumbnail_url alt description title username password files)")
     (auto split: prod.splits)


lemma upload_no_notify:
  "filter is_notify_call (events (upload_image_to_wordpress env thumbnail_url alt description title username password files)) = []"
  by (simp add: filter_empty_conv upload_events)

lemma ct_posts_guarded:
  "guarded (media_answered_with_id env) is_posts_call (events (create_post_try env title author content status categories thumbnail_url alt description username password daprun_id files))"
proof -
  have noQ: "\<forall>e\<in>set (events (upload_image_to_wordpress env thumbnail_url alt description title username password files)). \<not> is_posts_call e"
    by (simp add: upload_events)
  from ct_shape [of env thumbnail_url alt description title username password files
                    author content status categories daprun_id]
  show ?thesis
  proof (elim disjE exE conjE)
    fix x assume "create_post_try env title author content status categories thumbnail_url alt description username password daprun_id files = upload_image_to_wordpress env thumbnail_url alt description title username password files"
    then show ?thesis using noQ by (simp add: guarded_no_Q)
  next
    fix v assume "events (create_post_try env title author content status categories thumbnail_url alt description username password daprun_id files) = events (upload_image_to_wordpress env thumbnail_url alt description title username password files) @ [Log ERROR ''Failed to upload image, cannot create post'' []]"
    then show ?thesis using noQ by (simp add: guarded_no_Q)
  next
    fix v r es
    assume v: "outcome (upload_image_to_wordpress env thumbnail_url alt description title username password files) = Returned v" "truthy v"
      and ev: "events (create_post_try env title author content status categories thumbnail_url alt description username password daprun_id files) = events (upload_image_to_wordpress env thumbnail_url alt description title username password files) @ es"
    from upload_Returned [OF v] obtain e0
      where e0: "e0 \<in> set (events (upload_image_to_wordpress env thumbnail_url alt description title username password files))" "media_answer env e0 = Some v"
      by blast
    from e0(2) v(2) have "media_answered_with_id env e0"
      by (simp add: media_answered_with_id_def)
    with e0(1) have "\<exists>e\<in>set (events (upload_image_to_wordpress env thumbnail_url alt description title username password files)). media_answered_with_id env e"
      by blast
    then show ?thesis using noQ ev by (simp add: guarded_append)
  qed
qed

lemma ct_notify_guarded:
  "guarded (posts_answered_with_id env) is_notify_call (events (create_post_try env title author content status categories thumbnail_url alt description username password daprun_id files))"
proof -
  have noQ: "\<forall>e\<in>set (events (upload_image_to_wordpress env thumbnail_url alt description title username password files)). \<not> is_notify_call e"
    by (simp add: upload_events)
  have noP: "\<not> (\<exists>e\<in>set (events (upload_image_to_wordpress env thumbnail_url alt description title username password files)). posts_answered_with_id env e)"
    by (simp add: upload_events posts_answered_with_id_def)
  from ct_shape [of env thumbnail_url alt description title username password files
                    author content status categories daprun_id]
  show ?thesis
  proof (elim disjE exE conjE)
    fix x assume "create_post_try env title author content status categories thumbnail_url alt description username password daprun_id files = upload_image_to_wordpress env thumbnail_url alt description title username password files"
    then show ?thesis using noQ by (simp add: guarded_no_Q)
  next
    fix v assume "events (create_post_try env title author content status categories thumbnail_url alt description username password daprun_id files) = events (upload_image_to_wordpress env thumbnail_url alt description title username password files) @ [Log ERROR ''Failed to upload image, cannot create post'' []]"
    then show ?thesis using noQ by (simp add: guarded_no_Q)
  next
    fix v r es
    assume cm: "create_post_with_media env title author content status categories v username password daprun_id
                  = (r, es)"
      and ev: "events (create_post_try env title author content status categories thumbnail_url alt description username password daprun_id files) = events (upload_image_to_wordpress env thumbnail_url alt description title username password files) @ es"
    show ?thesis using noQ noP ev cm_guarded [OF cm] by (simp add: guarded_append)
  qed
qed

lemma ct_notify:
  assumes "e \<in> set (events (create_post_try env title author content status categories thumbnail_url alt description username password daprun_id files))" and "posts_answer env e = Some post_id"
  shows "filter is_notify_call (events (create_post_try env title author content status categories thumbnail_url alt description username password daprun_id files))
           = [Session_post notify_url (notify_data post_id daprun_id) (Bearer notify_token)]"
proof -
  have notU: "e \<notin> set (events (upload_image_to_wordpress env thumbnail_url alt description title username password files))"
    using assms(2) upload_events [of e env thumbnail_url alt description title username password files]
    by auto
  from ct_shape [of env thumbnail_url alt description title username password files
                    author content status categories daprun_id]
  show ?thesis
  proof (elim disjE exE conjE)
    fix x assume "create_post_try env title author content status categories thumbnail_url alt description username password daprun_id files = upload_image_to_wordpress env thumbnail_url alt description title username password files"
    then show ?thesis using notU assms(1) by simp
  next
    fix v assume "events (create_post_try env title author content status categories thumbnail_url alt description username password daprun_id files) = events (upload_image_to_wordpress env thumbnail_url alt description title username password files) @ [Log ERROR ''Failed to upload image, cannot create post'' []]"
    then show ?thesis using notU assms by auto
  next
    fix v r es
    assume cm: "create_post_with_media env title author content status categories v username password daprun_id
                  = (r, es)"
      and ev: "events (create_post_try env title author content status categories thumbnail_url alt description username password daprun_id files) = events (upload_image_to_wordpress env thumbnail_url alt description title username password files) @ es"
    from ev notU assms(1) have "e \<in> set es" by simp
    from cm_notify [OF cm this assms(2)] ev show ?thesis
      by (simp add: upload_no_notify)
  qed
qed

lemma ct_falsy:
  assumes "e \<in> set (events (create_post_try env title author content status categories thumbnail_url alt description username password daprun_id files))" and "media_answer env e = Some v" and "\<not> truthy v"
  shows "outcome (upload_image_to_wordpress env thumbnail_url alt description title username password files) = Returned v
       \<and> outcome (create_post_try env title author content status categories thumbnail_url alt description username password daprun_id files) = Returned JNull
       \<and> events (create_post_try env title author content status categories thumbnail_url alt description username password daprun_id files) = events (upload_image_to_wordpress env thumbnail_url alt description title username password files) @ [Log ERROR ''Failed to upload image, cannot create post'' []]"
proof -
  from ct_shape [of env thumbnail_url alt description title username password files
                    author content status categories daprun_id]
  show ?thesis
  proof (elim disjE exE conjE)
    fix x assume "outcome (upload_image_to_wordpress env thumbnail_url alt description title username password files) = Raised x" "create_post_try env title author content status categories thumbnail_url alt description username password daprun_id files = upload_image_to_wordpress env thumbnail_url alt description title username password files"
    then show ?thesis using assms(1,2) upload_answer [of e env thumbnail_url alt description title username password files v]
      by simp
  next
    fix v' assume a: "outcome (upload_image_to_wordpress env thumbnail_url alt description title username password files) = Returned v'" "\<not> truthy v'"
      "outcome (create_post_try env title author content status categories thumbnail_url alt description username password daprun_id files) = Returned JNull"
      "events (create_post_try env title author content status categories thumbnail_url alt description username password daprun_id files) = events (upload_image_to_wordpress env thumbnail_url alt description title username password files) @ [Log ERROR ''Failed to upload image, cannot create post'' []]"
    then have "e \<in> set (events (upload_image_to_wordpress env thumbnail_url alt description title username password files))" using assms(1,2) by auto
    from upload_answer [OF this assms(2)] a show ?thesis by simp
  next
    fix v' r es
    assume a: "outcome (upload_image_to_wordpress env thumbnail_url alt description title username password files) = Returned v'" "truthy v'"
      and cm: "create_post_with_media env title author content status categories v' username password daprun_id
                  = (r, es)"
      and ev: "events (create_post_try env title author content status categories thumbnail_url alt description username password daprun_id files) = events (upload_image_to_wordpress env thumbnail_url alt description title username password files) @ es"
    have "e \<in> set (events (upload_image_to_wordpress env thumbnail_url alt description title username password files))"
      using assms(1,2) ev cm_media_answer [OF cm, of e] by auto
    from upload_answer [OF this assms(2)] a assms(3) show ?thesis by simp
  qed
qed

lemma ct_posts_call:
  assumes "e \<in> set (events (create_post_try env title author content status categories thumbnail_url alt description username password daprun_id files))" and "is_posts_call e"
  shows "\<exists>v c featured_media u p.
           outcome (upload_image_to_wordpress env thumbnail_url alt description title username password files) = Returned v \<and> truthy v \<and> content = JStr c
         \<and> format_d v = Inr featured_media
         \<and> e = Requests_post posts_url
                 (Post_data title author (escape_content c) status categories featured_media) (Basic u p)"
proof -
  have notU: "e \<notin> set (events (upload_image_to_wordpress env thumbnail_url alt description title username password files))"
    using assms(2) upload_events [of e env thumbnail_url alt description title username password files]
    by auto
  from ct_shape [of env thumbnail_url alt description title username password files
                    author content status categories daprun_id]
  show ?thesis
  proof (elim disjE exE conjE)
    fix x assume "create_post_try env title author content status categories thumbnail_url alt description username password daprun_id files = upload_image_to_wordpress env thumbnail_url alt description title username password files"
    then show ?thesis using notU assms(1) by simp
  next
    fix v assume "events (create_post_try env title author content status categories thumbnail_url alt description username password daprun_id files) = events (upload_image_to_wordpress env thumbnail_url alt description title username password files) @ [Log ERROR ''Failed to upload image, cannot create post'' []]"
    then show ?thesis using notU assms by auto
  next
    fix v r es
    assume a: "outcome (upload_image_to_wordpress env thumbnail_url alt description title username password files) = Returned v" "truthy v"
      and cm: "create_post_with_media env title author content status categories v username password daprun_id
                  = (r, es)"
      and ev: "events (create_post_try env title author content status categories thumbnail_url alt description username password daprun_id files) = events (upload_image_to_wordpress env thumbnail_url alt description title username password files) @ es"
    from ev notU assms(1) have "e \<in> set es" by simp
    from cm_posts_call [OF cm this assms(2)] a show ?thesis by auto
  qed
qed


subsection \<open>create\_post\_in\_wordpress and the pipeline\<close>

lemma decode_categories_Inl: "decode_categories loads c = Inl e \<Longrightarrow> is_log e"
  by (cases c) (auto split: sum.splits)

text \<open>
  The events of create_post_in_wordpress are those of its try block, followed by at
  most one log record.
\<close>

lemma cp_shape:
  "\<exists>post. events (create_post_in_wordpress env title author content status categories thumbnail_url alt
                    description username password daprun_id files)
            = events (create_post_try env title author content status categories thumbnail_url alt
                        description username password daprun_id files) @ post
         \<and> (\<forall>e\<in>set post. is_log e)"
  unfolding create_post_in_wordpress_def Let_def
  by (cases "outcome (create_post_try env title author content status categories thumbnail_url alt
                        description username password daprun_id files)") auto

text \<open>
  A run of the pipeline records log records only, or it passes the presence check and
  records the events of the try block of create_post_in_wordpress between log records.
\<close>

lemma process_shape:
  "(\<forall>e\<in>set (events (process_media_and_post_async loads env req_data files)). is_log e)
   \<or> (\<exists>d categories pre post.
         req_data = JDict d
       \<and> decode_categories loads (dict_get d ''categories'') = Inr categories
       \<and> events (process_media_and_post_async loads env req_data files)
           = pre @ events (create_post_try env (dict_get d ''title'') (dict_get d ''author'')
                             (dict_get d ''content'') (dict_get d ''status'') categories
                             (dict_get d ''thumbnail_url'') (dict_get d ''alt_text'')
                             (dict_get d ''description'') (dict_get d ''username'')
                             (dict_get d ''password'') (dict_get d ''daprun_id'') files) @ post
       \<and> (\<forall>e\<in>set pre. is_log e) \<and> (\<forall>e\<in>set post. is_log e))"
proof (cases req_data)
  case (JDict d)
  show ?thesis
  proof (cases "decode_categories loads (dict_get d ''categories'')")
    case (Inl e)
    then show ?thesis using JDict
      by (simp add: process_media_and_post_async_def decode_categories_Inl)
  next
    case (Inr categories)
    show ?thesis
    proof (cases "truthy (dict_get d ''title'') \<and> truthy (dict_get d ''author'')
                  \<and> truthy (dict_get d ''content'') \<and> truthy (dict_get d ''status'')
                  \<and> truthy categories \<and> truthy (dict_get d ''thumbnail_url'')
                  \<and> truthy (dict_get d ''alt_text'') \<and> truthy (dict_get d ''description'')
                  \<and> truthy (dict_get d ''username'') \<and> truthy (dict_get d ''password'')
                  \<and> truthy (dict_get d ''daprun_id'')")
      case True
      from cp_shape [of env "dict_get d ''title''" "dict_get d ''author''" "dict_get d ''content''"
                        "dict_get d ''status''" categories "dict_get d ''thumbnail_url''"
                        "dict_get d ''alt_text''" "dict_get d ''description''" "dict_get d ''username''"
                        "dict_get d ''password''" "dict_get d ''daprun_id''" files]
      obtain post where post:
        "events (create_post_in_wordpress env (dict_get d ''title'') (dict_get d ''author'')
                   (dict_get d ''content'') (dict_get d ''status'') categories
                   (dict_get d ''thumbnail_url'') (dict_get d ''alt_text'') (dict_get d ''description'')
                   (dict_get d ''username'') (dict_get d ''password'') (dict_get d ''daprun_id'') files)
           = events (create_post_try env (dict_get d ''title'') (dict_get d ''author'')
                       (dict_get d ''content'') (dict_get d ''status'') categories
                       (dict_get d ''thumbnail_url'') (dict_get d ''alt_text'') (dict_get d ''description'')
                       (dict_get d ''username'') (dict_get d ''password'') (dict_get d ''daprun_id'') files)
               @ post"
        "\<forall>e\<in>set post. is_log e"
        by blast
      have "events (process_media_and_post_async loads env req_data files)
              = [Log INFO ''All required parameters are present'' []]
                @ events (create_post_try env (dict_get d ''title'') (dict_get d ''author'')
                            (dict_get d ''content'') (dict_get d ''status'') categories
                            (dict_get d ''thumbnail_url'') (dict_get d ''alt_text'')
                            (dict_get d ''description'') (dict_get d ''username'')
                            (dict_get d ''password'') (dict_get d ''daprun_id'') files) @ post"
        using JDict Inr True post(1)
        by (simp add: process_media_and_post_async_def check_required_parameters_def Let_def)
      then show ?thesis using JDict Inr post(2)
        by (intro disjI2 exI [of _ d] exI [of _ categories]
              exI [of _ "[Log INFO ''All required parameters are present'' []]"] exI [of _ post]) simp
    next
      case False
      then show ?thesis using JDict Inr
        by (auto simp add: process_media_and_post_async_def check_required_parameters_def)
    qed
  qed
qed (simp_all add: process_media_and_post_async_def)


lemma cp_Returned:
  "outcome (create_post_try env title author content status categories thumbnail_url alt description username password daprun_id files) = Returned r \<Longrightarrow> create_post_in_wordpress env title author content status categories thumbnail_url alt description username password daprun_id files
     = create_post_try env title author content status categories thumbnail_url alt description username password daprun_id files"
  by (simp add: create_post_in_wordpress_def Let_def)

lemma answered_not_log:
  "posts_answer env e = Some v \<Longrightarrow> \<not> is_log e" "media_answer env e = Some v \<Longrightarrow> \<not> is_log e"
  "is_posts_call e \<Longrightarrow> \<not> is_log e" "is_notify_call e \<Longrightarrow> \<not> is_log e"
  by (cases e; simp)+

lemma guarded_around_logs:
  assumes "guarded P Q es" and "\<forall>e\<in>set pre. is_log e" and "\<forall>e\<in>set post. is_log e"
    and "\<And>e. is_log e \<Longrightarrow> \<not> P e" and "\<And>e. is_log e \<Longrightarrow> \<not> Q e"
  shows "guarded P Q (pre @ es @ post)"
  using assms by (intro guarded_logs) auto

lemma process_posts_guarded:
  "guarded (media_answered_with_id env) is_posts_call (events (process_media_and_post_async loads env req_data files))"
  using process_shape [of loads env req_data files]
proof (elim disjE exE conjE)
  assume "\<forall>e\<in>set (events (process_media_and_post_async loads env req_data files)). is_log e"
  then show ?thesis by (intro guarded_no_Q) (auto simp: is_log_simps)
next
  fix d categories pre post
  assume ev: "events (process_media_and_post_async loads env req_data files)
           = pre @ events (create_post_try env (dict_get d ''title'') (dict_get d ''author'')
                             (dict_get d ''content'') (dict_get d ''status'') categories
                             (dict_get d ''thumbnail_url'') (dict_get d ''alt_text'')
                             (dict_get d ''description'') (dict_get d ''username'')
                             (dict_get d ''password'') (dict_get d ''daprun_id'') files) @ post"
    and logs: "\<forall>e\<in>set pre. is_log e" "\<forall>e\<in>set post. is_log e"
  show ?thesis unfolding ev
    by (rule guarded_around_logs [OF ct_posts_guarded logs])
       (simp_all add: is_log_simps media_answered_with_id_def)
qed

lemma process_notify_guarded:
  "guarded (posts_answered_with_id env) is_notify_call (events (process_media_and_post_async loads env req_data files))"
  using process_shape [of loads env req_data files]
proof (elim disjE exE conjE)
  assume "\<forall>e\<in>set (events (process_media_and_post_async loads env req_data files)). is_log e"
  then show ?thesis by (intro guarded_no_Q) (auto simp: is_log_simps)
next
  fix d categories pre post
  assume ev: "events (process_media_and_post_async loads env req_data files)
           = pre @ events (create_post_try env (dict_get d ''title'') (dict_get d ''author'')
                             (dict_get d ''content'') (dict_get d ''status'') categories
                             (dict_get d ''thumbnail_url'') (dict_get d ''alt_text'')
                             (dict_get d ''description'') (dict_get d ''username'')
                             (dict_get d ''password'') (dict_get d ''daprun_id'') files) @ post"
    and logs: "\<forall>e\<in>set pre. is_log e" "\<forall>e\<in>set post. is_log e"
  show ?thesis unfolding ev
    by (rule guarded_around_logs [OF ct_notify_guarded logs])
       (simp_all add: is_log_simps posts_answered_with_id_def)
qed

lemma cp_unless_media_id:
  assumes "e \<in> set (events (create_post_in_wordpress env title author content status categories thumbnail_url alt description username password daprun_id files))" and "is_posts_call e \<or> is_notify_call e"
  shows "\<exists>v. outcome (upload_image_to_wordpress env thumbnail_url alt description title username password files) = Returned v \<and> truthy v"
proof -
  from cp_shape [of env title author content status categories thumbnail_url alt description
                    username password daprun_id files]
  obtain post where post: "events (create_post_in_wordpress env title author content status categories thumbnail_url alt description username password daprun_id files) = events (create_post_try env title author content status categories thumbnail_url alt description username password daprun_id files) @ post" "\<forall>e\<in>set post. is_log e"
    by blast
  from assms post have e: "e \<in> set (events (create_post_try env title author content status categories thumbnail_url alt description username password daprun_id files))"
    by (auto simp: is_log_simps)
  have notU: "e \<notin> set (events (upload_image_to_wordpress env thumbnail_url alt description title username password files))"
    using assms(2) upload_events [of e env thumbnail_url alt description title username password files]
    by auto
  from ct_shape [of env thumbnail_url alt description title username password files
                    author content status categories daprun_id]
  show ?thesis
  proof (elim disjE exE conjE)
    assume "create_post_try env title author content status categories thumbnail_url alt description username password daprun_id files = upload_image_to_wordpress env thumbnail_url alt description title username password files"
    then show ?thesis using notU e by simp
  next
    assume "events (create_post_try env title author content status categories thumbnail_url alt description username password daprun_id files) = events (upload_image_to_wordpress env thumbnail_url alt description title username password files) @ [Log ERROR ''Failed to upload image, cannot create post'' []]"
    then show ?thesis using notU e assms(2) by auto
  next
    fix v assume "outcome (upload_image_to_wordpress env thumbnail_url alt description title username password files) = Returned v" "truthy v"
    then show ?thesis by blast
  qed
qed


subsection \<open>A run in the sample environment\<close>

lemma sample_run:
  "truthy categories \<Longrightarrow> truthy daprun_id \<Longrightarrow>
   check_required_parameters sample_env (JStr ''T'') (JStr ''1'') (JStr ''Hello'') (JStr ''publish'')
     categories (JStr ''https://img.example/a.jpg'') (JStr ''alt'') (JStr ''desc'') (JStr ''user'')
     (JStr ''pw'') daprun_id Map.empty
   = \<lparr>outcome = Returned (), tmp_files = Map.empty,
      events =
        [Log INFO ''All required parameters are present'' [],
         Log INFO ''Uploading image...'' [],
         Requests_get (JStr ''https://img.example/a.jpg'') (JStr ''user'') (JStr ''pw''),
         Log INFO ''Image downloaded successfully'' [],
         Temp_file_created ''tmp/3f2a_k1.jpg'',
         Log INFO ''Image saved to temporary file: %s'' [Arg_str ''tmp/3f2a_k1.jpg''],
         Requests_post media_url
           (Multipart_data (''T.jpg'', ''JPEG'', ''image/jpg'') (JStr ''alt'') ''T'' (JStr ''desc''))
           (Basic ''user'' ''pw''),
         Log INFO ''Image uploaded successfully'' [],
         Temp_file_unlinked ''tmp/3f2a_k1.jpg'',
         Log INFO ''Temporary file deleted'' [],
         Requests_post posts_url
           (Post_data (JStr ''T'') (JStr ''1'') ''Hello'' (JStr ''publish'') categories 42)
           (Basic ''user'' ''pw''),
         Log INFO ''Post created successfully'' [],
         Session_post notify_url
           (JDict [(''post_id'', JInt 7), (''status'', JStr ''successful''), (''daprun_id'', daprun_id)])
           (Bearer notify_token),
         Log INFO ''Successfully notified: {url}'' [Arg_str notify_url]]\<rparr>"
  by (simp add: run_defs)


lemma sample_fields_get:
  "dict_get (sample_fields title categories) ''title'' = title"
  "dict_get (sample_fields title categories) ''author'' = JStr ''1''"
  "dict_get (sample_fields title categories) ''content'' = JStr ''Hello''"
  "dict_get (sample_fields title categories) ''status'' = JStr ''publish''"
  "dict_get (sample_fields title categories) ''categories'' = categories"
  "dict_get (sample_fields title categories) ''thumbnail_url'' = JStr ''https://img.example/a.jpg''"
  "dict_get (sample_fields title categories) ''alt_text'' = JStr ''alt''"
  "dict_get (sample_fields title categories) ''description'' = JStr ''desc''"
  "dict_get (sample_fields title categories) ''username'' = JStr ''user''"
  "dict_get (sample_fields title categories) ''password'' = JStr ''pw''"
  "dict_get (sample_fields title categories) ''daprun_id'' = JStr ''run-1''"
  by (simp_all add: sample_fields_def dict_get_def)

lemma sample_pipeline_decoded:
  "decode_categories json_loads categories = Inr decoded \<Longrightarrow>
   sample_pipeline title categories
   = check_required_parameters sample_env title (JStr ''1'') (JStr ''Hello'') (JStr ''publish'') decoded
       (JStr ''https://img.example/a.jpg'') (JStr ''alt'') (JStr ''desc'') (JStr ''user'') (JStr ''pw'')
       (JStr ''run-1'') Map.empty"
  by (simp add: sample_pipeline_def process_media_and_post_async_def sample_fields_get)

subsection \<open>The categories and the presence check\<close>

lemma process_decoded:
  "decode_categories loads (dict_get d ''categories'') = Inr decoded \<Longrightarrow>
   process_media_and_post_async loads env (JDict d) files = (check_required_parameters env (dict_get d ''title'') (dict_get d ''author'')
           (dict_get d ''content'') (dict_get d ''status'') decoded
           (dict_get d ''thumbnail_url'') (dict_get d ''alt_text'') (dict_get d ''description'')
           (dict_get d ''username'') (dict_get d ''password'') (dict_get d ''daprun_id'') files)"
  by (simp add: process_media_and_post_async_def)

lemma process_posts_payload:
  assumes "decode_categories loads (dict_get d ''categories'') = Inr decoded"
    and "e \<in> set (events (process_media_and_post_async loads env (JDict d) files))" and "is_posts_call e"
  shows "\<exists>content featured_media auth.
           e = Requests_post posts_url
                 (Post_data (dict_get d ''title'') (dict_get d ''author'') content (dict_get d ''status'')
                    decoded featured_media) auth"
  using process_shape [of loads env "JDict d" files]
proof (elim disjE exE conjE)
  assume "\<forall>e\<in>set (events (process_media_and_post_async loads env (JDict d) files)). is_log e"
  then show ?thesis using assms(2,3) by (auto simp: is_log_simps)
next
  fix d' categories pre post
  assume d: "JDict d = JDict d'"
    and dec: "decode_categories loads (dict_get d' ''categories'') = Inr categories"
    and ev: "events (process_media_and_post_async loads env (JDict d) files)
           = pre @ events (create_post_try env (dict_get d' ''title'') (dict_get d' ''author'')
                             (dict_get d' ''content'') (dict_get d' ''status'') categories
                             (dict_get d' ''thumbnail_url'') (dict_get d' ''alt_text'')
                             (dict_get d' ''description'') (dict_get d' ''username'')
                             (dict_get d' ''password'') (dict_get d' ''daprun_id'') files) @ post"
    and logs: "\<forall>e\<in>set pre. is_log e" "\<forall>e\<in>set post. is_log e"
  from d have d': "d' = d" by simp
  from dec assms(1) have c: "categories = decoded" unfolding d' by simp
  from assms(2) ev logs answered_not_log(3) [OF assms(3)]
  have "e \<in> set (events (create_post_try env (dict_get d ''title'') (dict_get d ''author'')
                             (dict_get d ''content'') (dict_get d ''status'') decoded
                             (dict_get d ''thumbnail_url'') (dict_get d ''alt_text'')
                             (dict_get d ''description'') (dict_get d ''username'')
                             (dict_get d ''password'') (dict_get d ''daprun_id'') files))"
    unfolding d' c by auto
  from ct_posts_call [OF this assms(3)] show ?thesis by blast
qed

lemma map_of_dict_remove:
  "map_of (dict_remove k d) k' = (if k' = k then None else map_of d k')"
  unfolding dict_remove_def by (induction d) auto

lemma dict_get_remove:
  "dict_get (dict_remove k d) k' = (if k' = k then JNull else dict_get d k')"
  by (simp add: dict_get_def map_of_dict_remove)

lemma dict_get_Cons:
  "dict_get ((k, v) # d) k' = (if k' = k then v else dict_get d k')"
  by (simp add: dict_get_def)

lemma text_field_falsy:
  "k \<in> set text_fields \<Longrightarrow> \<not> truthy (dict_get d k) \<Longrightarrow>
   \<not> (truthy (dict_get d ''title'') \<and> truthy (dict_get d ''author'')
      \<and> truthy (dict_get d ''content'') \<and> truthy (dict_get d ''status'') \<and> truthy c
      \<and> truthy (dict_get d ''thumbnail_url'') \<and> truthy (dict_get d ''alt_text'')
      \<and> truthy (dict_get d ''description'') \<and> truthy (dict_get d ''username'')
      \<and> truthy (dict_get d ''password'') \<and> truthy (dict_get d ''daprun_id''))"
  by (auto simp: text_fields_def)

section \<open>The request handler\<close>

text \<open>
  C3. For every decoded request body presented with the correct key, the handler responds
  200 with the message "Key authentication successful" and starts the background thread
  with the body. The response is the same whatever the body holds and whatever the
  environment answers to the pipeline: the response of a request served to the end is
  this one for every decoder, environment and temporary directory.
\<close>

theorem correct_key_acknowledged:
  "response (create_post \<lparr>key_header = Some API_KEY, json_body = Parsed req_data\<rparr>)
     = Json_response (JDict [(''message'', JStr ''Key authentication successful'')]) 200
   \<and> thread_started (create_post \<lparr>key_header = Some API_KEY, json_body = Parsed req_data\<rparr>)
     = Some req_data
   \<and> fst (serve loads env \<lparr>key_header = Some API_KEY, json_body = Parsed req_data\<rparr> files)
     = Json_response (JDict [(''message'', JStr ''Key authentication successful'')]) 200"
  by (simp add: create_post_def serve_def json_dumps_error_def Let_def)

theorem correct_key_acknowledged_witness:
  "fst (serve json_loads sample_env
          \<lparr>key_header = Some ''Sample_Key'', json_body = Parsed (JList [JInt 1, JStr ''x''])\<rparr> Map.empty)
     = Json_response (JDict [(''message'', JStr ''Key authentication successful'')]) 200"
  using correct_key_acknowledged [of "JList [JInt 1, JStr ''x'']" json_loads sample_env Map.empty]
  by (simp add: API_KEY_def)

text \<open>
  C2, as the code has it. The handler decodes the body before it looks at the key. For
  a request whose key is missing or wrong and whose body decodes, the response is 401
  with the message "Key authentication failed". Whatever the body is, such a request
  starts no background thread and a request served to the end makes no upstream call.
\<close>

theorem wrong_key_rejected:
  assumes "key \<noteq> Some API_KEY"
  shows "response (create_post \<lparr>key_header = key, json_body = Parsed req_data\<rparr>)
           = Json_response (JDict [(''message'', JStr ''Key authentication failed'')]) 401
       \<and> fst (serve loads env \<lparr>key_header = key, json_body = Parsed req_data\<rparr> files)
           = Json_response (JDict [(''message'', JStr ''Key authentication failed'')]) 401
       \<and> thread_started (create_post \<lparr>key_header = key, json_body = body\<rparr>) = None
       \<and> upstream_calls (events (snd (serve loads env \<lparr>key_header = key, json_body = body\<rparr> files))) = []"
  using assms
  by (cases body) (simp_all add: create_post_def serve_def json_dumps_error_def upstream_calls_def)

theorem wrong_key_rejected_witness:
  "response (create_post \<lparr>key_header = Some ''sample_key'',
                           json_body = Parsed (JDict (sample_fields (JStr ''T'') (JList [JInt 1])))\<rparr>)
     = Json_response (JDict [(''message'', JStr ''Key authentication failed'')]) 401
   \<and> events (snd (serve json_loads sample_env
        \<lparr>key_header = None, json_body = Parsed (JDict (sample_fields (JStr ''T'') (JList [JInt 1])))\<rparr>
        Map.empty))
     = [Log INFO ''Received request data: %s'' [Arg_json (JDict (sample_fields (JStr ''T'') (JList [JInt 1])))],
        Log ERROR ''Key authentication failed'' []]"
  using wrong_key_rejected [of "Some ''sample_key''" "JDict (sample_fields (JStr ''T'') (JList [JInt 1]))"]
  by (simp add: API_KEY_def create_post_def serve_def json_dumps_error_def)

text \<open>
  The claim as stated fails for a body that is not JSON: without a key, the response is
  400, not 401.
\<close>

theorem wrong_key_counterexample:
  "response (create_post \<lparr>key_header = None,
                           json_body = Malformed ''Expecting value: line 1 column 1 (char 0)''\<rparr>)
     = Json_response (JDict [(''message'', JStr ''Invalid JSON format'')]) 400
   \<and> response (create_post \<lparr>key_header = None,
                             json_body = Malformed ''Expecting value: line 1 column 1 (char 0)''\<rparr>)
     \<noteq> Json_response (JDict [(''message'', JStr ''Key authentication failed'')]) 401"
  by (simp add: create_post_def)




section \<open>Temporary files\<close>

text \<open>
  C7. The image fetch-and-upload operation leaves the temporary directory as it found
  it, on every exit: a value returned, \<^verbatim>\<open>None\<close> returned after a logged
  \<open>RequestException\<close>, or another exception raised. Whenever it created a temporary
  file, the file did not exist before, it is unlinked before the operation is left, and
  it does not exist afterwards. So a pipeline run leaves the directory as it found it.
\<close>

theorem temporary_file_removed:
  "tmp_files (upload_image_to_wordpress env image_url alt description title username password files)
     = files
   \<and> (Temp_file_created n
         \<in> set (events (upload_image_to_wordpress env image_url alt description title username password files))
      \<longrightarrow> files n = None
          \<and> Temp_file_unlinked n
               \<in> set (events (upload_image_to_wordpress env image_url alt description title username password files))
          \<and> tmp_files (upload_image_to_wordpress env image_url alt description title username password files) n
               = None)
   \<and> tmp_files (process_media_and_post_async loads env req_data files) = files"
  using upload_created [of n env image_url alt description title username password files]
  by (simp add: upload_tmp_files process_tmp_files)

text \<open>
  A run in which the CMS answers the upload with status 500: the file is created and
  unlinked, and the directory is empty afterwards.
\<close>

theorem temporary_file_removed_witness:
  "Temp_file_created ''tmp/3f2a_k1.jpg''
     \<in> set (events (upload_image_to_wordpress
                       (sample_env\<lparr>requests_post := (\<lambda>url data auth. Response 500 (Inl (JSONDecodeError '''')))\<rparr>)
                       (JStr ''https://img.example/a.jpg'') (JStr ''alt'') (JStr ''desc'') (JStr ''T'')
                       (JStr ''user'') (JStr ''pw'') Map.empty))
   \<and> Temp_file_unlinked ''tmp/3f2a_k1.jpg''
     \<in> set (events (upload_image_to_wordpress
                       (sample_env\<lparr>requests_post := (\<lambda>url data auth. Response 500 (Inl (JSONDecodeError '''')))\<rparr>)
                       (JStr ''https://img.example/a.jpg'') (JStr ''alt'') (JStr ''desc'') (JStr ''T'')
                       (JStr ''user'') (JStr ''pw'') Map.empty))
   \<and> tmp_files (upload_image_to_wordpress
                  (sample_env\<lparr>requests_post := (\<lambda>url data auth. Response 500 (Inl (JSONDecodeError '''')))\<rparr>)
                  (JStr ''https://img.example/a.jpg'') (JStr ''alt'') (JStr ''desc'') (JStr ''T'')
                  (JStr ''user'') (JStr ''pw'') Map.empty)
     = Map.empty"
proof -
  have created:
    "Temp_file_created ''tmp/3f2a_k1.jpg''
       \<in> set (events (upload_image_to_wordpress
                         (sample_env\<lparr>requests_post := (\<lambda>url data auth. Response 500 (Inl (JSONDecodeError '''')))\<rparr>)
                         (JStr ''https://img.example/a.jpg'') (JStr ''alt'') (JStr ''desc'') (JStr ''T'')
                         (JStr ''user'') (JStr ''pw'') Map.empty))"
    by (simp add: run_defs)
  show ?thesis
    using created
      temporary_file_removed [of
        "sample_env\<lparr>requests_post := (\<lambda>url data auth. Response 500 (Inl (JSONDecodeError '''')))\<rparr>"
        "JStr ''https://img.example/a.jpg''" "JStr ''alt''" "JStr ''desc''" "JStr ''T''"
        "JStr ''user''" "JStr ''pw''" Map.empty "''tmp/3f2a_k1.jpg''"]
    by simp
qed

section \<open>The order of the pipeline\<close>

text \<open>
  C1. In the events of every pipeline run, whatever the request and the environment:
  no post to the posts endpoint comes before a post to the media endpoint that the CMS
  answered with success and a truthy id, and no call of the notifier comes before a
  post to the posts endpoint that the CMS answered with success and an id. So a post is
  created only if the upload returned a media identifier, and the notification is sent
  only if the post creation succeeded. In create_post_in_wordpress, a post to the posts
  endpoint or a call of the notifier implies that the upload returned a truthy value;
  in particular there is neither when the upload returned \<^verbatim>\<open>None\<close>.
\<close>

theorem pipeline_ordering:
  "guarded (media_answered_with_id env) is_posts_call (events (process_media_and_post_async loads env req_data files))
   \<and> guarded (posts_answered_with_id env) is_notify_call (events (process_media_and_post_async loads env req_data files))
   \<and> ((\<exists>e\<in>set (events (process_media_and_post_async loads env req_data files)). is_posts_call e)
        \<longrightarrow> (\<exists>e\<in>set (events (process_media_and_post_async loads env req_data files)). media_answered_with_id env e))
   \<and> ((\<exists>e\<in>set (events (process_media_and_post_async loads env req_data files)). is_notify_call e)
        \<longrightarrow> (\<exists>e\<in>set (events (process_media_and_post_async loads env req_data files)). posts_answered_with_id env e))
   \<and> ((\<exists>e\<in>set (events (create_post_in_wordpress env title author content status categories thumbnail_url alt description username password daprun_id files)). is_posts_call e \<or> is_notify_call e)
        \<longrightarrow> (\<exists>v. outcome (upload_image_to_wordpress env thumbnail_url alt description title username password files) = Returned v \<and> truthy v))
   \<and> (outcome (upload_image_to_wordpress env thumbnail_url alt description title username password files) = Returned JNull
        \<longrightarrow> (\<forall>e\<in>set (events (create_post_in_wordpress env title author content status categories thumbnail_url alt description username password daprun_id files)). \<not> is_posts_call e \<and> \<not> is_notify_call e))"
proof (intro conjI impI)
  show g1: "guarded (media_answered_with_id env) is_posts_call (events (process_media_and_post_async loads env req_data files))"
    by (rule process_posts_guarded)
  show g2: "guarded (posts_answered_with_id env) is_notify_call (events (process_media_and_post_async loads env req_data files))"
    by (rule process_notify_guarded)
  show "\<exists>e\<in>set (events (process_media_and_post_async loads env req_data files)). media_answered_with_id env e"
    if "\<exists>e\<in>set (events (process_media_and_post_async loads env req_data files)). is_posts_call e"
    using guarded_only_if [OF g1 that] .
  show "\<exists>e\<in>set (events (process_media_and_post_async loads env req_data files)). posts_answered_with_id env e"
    if "\<exists>e\<in>set (events (process_media_and_post_async loads env req_data files)). is_notify_call e"
    using guarded_only_if [OF g2 that] .
  show "\<exists>v. outcome (upload_image_to_wordpress env thumbnail_url alt description title username password files) = Returned v \<and> truthy v"
    if "\<exists>e\<in>set (events (create_post_in_wordpress env title author content status categories thumbnail_url alt description username password daprun_id files)). is_posts_call e \<or> is_notify_call e"
    using that cp_unless_media_id by blast
  show "\<forall>e\<in>set (events (create_post_in_wordpress env title author content status categories thumbnail_url alt description username password daprun_id files)). \<not> is_posts_call e \<and> \<not> is_notify_call e"
    if none: "outcome (upload_image_to_wordpress env thumbnail_url alt description title username password files) = Returned JNull"
  proof
    fix e assume e: "e \<in> set (events (create_post_in_wordpress env title author content status categories thumbnail_url alt description username password daprun_id files))"
    show "\<not> is_posts_call e \<and> \<not> is_notify_call e"
    proof (rule ccontr)
      assume "\<not> (\<not> is_posts_call e \<and> \<not> is_notify_call e)"
      then have "is_posts_call e \<or> is_notify_call e" by blast
      from cp_unless_media_id [OF e this] none show False by auto
    qed
  qed
qed

theorem pipeline_ordering_witness:
  "(\<exists>e\<in>set (events (sample_pipeline (JStr ''T'') (JList [JInt 1]))). is_posts_call e)
   \<and> (\<exists>e\<in>set (events (sample_pipeline (JStr ''T'') (JList [JInt 1]))). media_answered_with_id sample_env e)
   \<and> (\<exists>e\<in>set (events (sample_pipeline (JStr ''T'') (JList [JInt 1]))). is_notify_call e)
   \<and> (\<exists>e\<in>set (events (sample_pipeline (JStr ''T'') (JList [JInt 1]))). posts_answered_with_id sample_env e)"
proof -
  have run: "(\<exists>e\<in>set (events (sample_pipeline (JStr ''T'') (JList [JInt 1]))). is_posts_call e)
           \<and> (\<exists>e\<in>set (events (sample_pipeline (JStr ''T'') (JList [JInt 1]))). is_notify_call e)"
    by (simp add: sample_pipeline_decoded sample_run)
  show ?thesis
    using run pipeline_ordering [of sample_env json_loads
      "JDict (sample_fields (JStr ''T'') (JList [JInt 1]))" Map.empty]
    unfolding sample_pipeline_def by blast
qed

section \<open>The notification\<close>

text \<open>
  C5, as the code has it. The run identifier is read from the field \<^verbatim>\<open>daprun_id\<close> of
  the request, and the body of the notification is the dictionary with the keys
  \<^verbatim>\<open>post_id\<close>, \<^verbatim>\<open>status\<close> (the string "successful") and \<^verbatim>\<open>daprun_id\<close>. Whenever a run of the
  pipeline posted to the posts endpoint and the CMS answered with success and a
  dictionary that has an id, the run calls the notifier exactly once, with that id and
  the \<^verbatim>\<open>daprun_id\<close> of the request, whatever the webhook then answers.
\<close>

theorem notifier_receives_post_id:
  assumes "e \<in> set (events (process_media_and_post_async loads env (JDict d) files))" and "posts_answer env e = Some post_id"
  shows "filter is_notify_call (events (process_media_and_post_async loads env (JDict d) files))
           = [Session_post notify_url
                (JDict [(''post_id'', post_id), (''status'', JStr ''successful''),
                        (''daprun_id'', dict_get d ''daprun_id'')])
                (Bearer notify_token)]"
  using process_shape [of loads env "JDict d" files]
proof (elim disjE exE conjE)
  assume "\<forall>e\<in>set (events (process_media_and_post_async loads env (JDict d) files)). is_log e"
  then show ?thesis using assms by (auto simp: is_log_simps)
next
  fix d' categories pre post
  assume d: "JDict d = JDict d'"
    and ev: "events (process_media_and_post_async loads env (JDict d) files)
           = pre @ events (create_post_try env (dict_get d' ''title'') (dict_get d' ''author'')
                             (dict_get d' ''content'') (dict_get d' ''status'') categories
                             (dict_get d' ''thumbnail_url'') (dict_get d' ''alt_text'')
                             (dict_get d' ''description'') (dict_get d' ''username'')
                             (dict_get d' ''password'') (dict_get d' ''daprun_id'') files) @ post"
    and logs: "\<forall>e\<in>set pre. is_log e" "\<forall>e\<in>set post. is_log e"
  from d have d': "d' = d" by simp
  from assms(1) ev logs answered_not_log(1) [OF assms(2)]
  have "e \<in> set (events (create_post_try env (dict_get d ''title'') (dict_get d ''author'')
                             (dict_get d ''content'') (dict_get d ''status'') categories
                             (dict_get d ''thumbnail_url'') (dict_get d ''alt_text'')
                             (dict_get d ''description'') (dict_get d ''username'')
                             (dict_get d ''password'') (dict_get d ''daprun_id'') files))"
    unfolding d' by (auto simp: is_log_simps)
  note sent = ct_notify [OF this assms(2)]
  have "filter is_notify_call pre = []" "filter is_notify_call post = []"
    using logs by (auto simp: filter_empty_conv is_log_simps)
  with sent ev show ?thesis
    unfolding d' by (simp add: notify_data_def)
qed

theorem notifier_receives_post_id_witness:
  "filter is_notify_call (events (sample_pipeline (JStr ''T'') (JList [JInt 1])))
     = [Session_post notify_url
          (JDict [(''post_id'', JInt 7), (''status'', JStr ''successful''), (''daprun_id'', JStr ''run-1'')])
          (Bearer notify_token)]"
proof -
  have sent: "Requests_post posts_url
                (Post_data (JStr ''T'') (JStr ''1'') ''Hello'' (JStr ''publish'') (JList [JInt 1]) 42)
                (Basic ''user'' ''pw'')
              \<in> set (events (sample_pipeline (JStr ''T'') (JList [JInt 1])))"
    by (simp add: sample_pipeline_decoded sample_run)
  have answered: "posts_answer sample_env
                    (Requests_post posts_url
                       (Post_data (JStr ''T'') (JStr ''1'') ''Hello'' (JStr ''publish'') (JList [JInt 1]) 42)
                       (Basic ''user'' ''pw''))
                  = Some (JInt 7)"
    by (simp add: sample_env_def media_url_def posts_url_def raise_for_status_def)
  show ?thesis
    using notifier_receives_post_id [OF sent [unfolded sample_pipeline_def] answered]
    by (simp add: sample_pipeline_def sample_fields_get)
qed

text \<open>
  The claim as stated fails on a request that has a \<^verbatim>\<open>run_id\<close> "A" besides its
  \<^verbatim>\<open>daprun_id\<close> "run-1": the notifier is called once, with the value and the key of
  \<^verbatim>\<open>daprun_id\<close>, and no call carries the \<^verbatim>\<open>run_id\<close>.
\<close>

theorem notifier_run_id_counterexample:
  "filter is_notify_call
     (events (process_media_and_post_async json_loads sample_env
                (JDict ((''run_id'', JStr ''A'') # sample_fields (JStr ''T'') (JList [JInt 1])))
                Map.empty))
     = [Session_post notify_url
          (JDict [(''post_id'', JInt 7), (''status'', JStr ''successful''), (''daprun_id'', JStr ''run-1'')])
          (Bearer notify_token)]
   \<and> Session_post notify_url
        (JDict [(''post_id'', JInt 7), (''status'', JStr ''successful''), (''run_id'', JStr ''A'')])
        (Bearer notify_token)
     \<notin> set (events (process_media_and_post_async json_loads sample_env
                        (JDict ((''run_id'', JStr ''A'') # sample_fields (JStr ''T'') (JList [JInt 1])))
                        Map.empty))"
  by (simp add: process_media_and_post_async_def dict_get_Cons sample_fields_get sample_run
        media_url_def posts_url_def)

section \<open>An upload answered without an id\<close>

text \<open>
  C9. When a post to the media endpoint was answered by the CMS with success and a
  dictionary whose id is falsy (no \<^verbatim>\<open>id\<close> field, so that \<^verbatim>\<open>.get('id')\<close> is \<^verbatim>\<open>None\<close>, or
  the id 0), the upload step returns that falsy value, create_post_in_wordpress logs
  "Failed to upload image, cannot create post" and returns \<^verbatim>\<open>None\<close>, and neither it nor
  the pipeline run posts to the posts endpoint or calls the notifier.
\<close>

theorem upload_without_id_creates_no_post:
  assumes "media_answer env e = Some v" and "\<not> truthy v"
  shows "(e \<in> set (events (create_post_in_wordpress env title author content status categories thumbnail_url alt description username password daprun_id files))
            \<longrightarrow> outcome (upload_image_to_wordpress env thumbnail_url alt description title username password files) = Returned v
              \<and> outcome (create_post_in_wordpress env title author content status categories thumbnail_url alt description username password daprun_id files) = Returned JNull
              \<and> events (create_post_in_wordpress env title author content status categories thumbnail_url alt description username password daprun_id files) = events (upload_image_to_wordpress env thumbnail_url alt description title username password files) @ [Log ERROR ''Failed to upload image, cannot create post'' []]
              \<and> (\<forall>e'\<in>set (events (create_post_in_wordpress env title author content status categories thumbnail_url alt description username password daprun_id files)). \<not> is_posts_call e' \<and> \<not> is_notify_call e'))
       \<and> (e \<in> set (events (process_media_and_post_async loads env req_data files))
            \<longrightarrow> (\<forall>e'\<in>set (events (process_media_and_post_async loads env req_data files)). \<not> is_posts_call e' \<and> \<not> is_notify_call e'))"
proof (intro conjI impI)
  assume e: "e \<in> set (events (create_post_in_wordpress env title author content status categories thumbnail_url alt description username password daprun_id files))"
  from cp_shape [of env title author content status categories thumbnail_url alt description
                    username password daprun_id files]
  obtain post where post: "events (create_post_in_wordpress env title author content status categories thumbnail_url alt description username password daprun_id files) = events (create_post_try env title author content status categories thumbnail_url alt description username password daprun_id files) @ post" "\<forall>e\<in>set post. is_log e"
    by blast
  from e post answered_not_log(2) [OF assms(1)] have "e \<in> set (events (create_post_try env title author content status categories thumbnail_url alt description username password daprun_id files))"
    by auto
  from ct_falsy [OF this assms] have ct:
    "outcome (upload_image_to_wordpress env thumbnail_url alt description title username password files) = Returned v" "outcome (create_post_try env title author content status categories thumbnail_url alt description username password daprun_id files) = Returned JNull"
    "events (create_post_try env title author content status categories thumbnail_url alt description username password daprun_id files) = events (upload_image_to_wordpress env thumbnail_url alt description title username password files) @ [Log ERROR ''Failed to upload image, cannot create post'' []]"
    by blast+
  from cp_Returned [OF ct(2)] have same: "create_post_in_wordpress env title author content status categories thumbnail_url alt description username password daprun_id files = create_post_try env title author content status categories thumbnail_url alt description username password daprun_id files" .
  show "outcome (upload_image_to_wordpress env thumbnail_url alt description title username password files) = Returned v" by (rule ct(1))
  show "outcome (create_post_in_wordpress env title author content status categories thumbnail_url alt description username password daprun_id files) = Returned JNull" using same ct(2) by simp
  show "events (create_post_in_wordpress env title author content status categories thumbnail_url alt description username password daprun_id files) = events (upload_image_to_wordpress env thumbnail_url alt description title username password files) @ [Log ERROR ''Failed to upload image, cannot create post'' []]"
    using same ct(3) by simp
  show "\<forall>e'\<in>set (events (create_post_in_wordpress env title author content status categories thumbnail_url alt description username password daprun_id files)). \<not> is_posts_call e' \<and> \<not> is_notify_call e'"
    using same ct(3) upload_events [of _ env thumbnail_url alt description title username password files]
    by auto
next
  assume e: "e \<in> set (events (process_media_and_post_async loads env req_data files))"
  from process_shape [of loads env req_data files]
  show "\<forall>e'\<in>set (events (process_media_and_post_async loads env req_data files)). \<not> is_posts_call e' \<and> \<not> is_notify_call e'"
  proof (elim disjE exE conjE)
    assume "\<forall>e\<in>set (events (process_media_and_post_async loads env req_data files)). is_log e"
    then show ?thesis by (auto simp: is_log_simps)
  next
    fix d categories pre post
    assume ev: "events (process_media_and_post_async loads env req_data files)
           = pre @ events (create_post_try env (dict_get d ''title'') (dict_get d ''author'')
                             (dict_get d ''content'') (dict_get d ''status'') categories
                             (dict_get d ''thumbnail_url'') (dict_get d ''alt_text'')
                             (dict_get d ''description'') (dict_get d ''username'')
                             (dict_get d ''password'') (dict_get d ''daprun_id'') files) @ post"
      and logs: "\<forall>e\<in>set pre. is_log e" "\<forall>e\<in>set post. is_log e"
    from e ev logs answered_not_log(2) [OF assms(1)]
    have "e \<in> set (events (create_post_try env (dict_get d ''title'') (dict_get d ''author'')
                             (dict_get d ''content'') (dict_get d ''status'') categories
                             (dict_get d ''thumbnail_url'') (dict_get d ''alt_text'')
                             (dict_get d ''description'') (dict_get d ''username'')
                             (dict_get d ''password'') (dict_get d ''daprun_id'') files))"
      by auto
    from ct_falsy [OF this assms]
    have "events (create_post_try env (dict_get d ''title'') (dict_get d ''author'')
                             (dict_get d ''content'') (dict_get d ''status'') categories
                             (dict_get d ''thumbnail_url'') (dict_get d ''alt_text'')
                             (dict_get d ''description'') (dict_get d ''username'')
                             (dict_get d ''password'') (dict_get d ''daprun_id'') files)
          = events (upload_image_to_wordpress env (dict_get d ''thumbnail_url'') (dict_get d ''alt_text'')
                      (dict_get d ''description'') (dict_get d ''title'') (dict_get d ''username'')
                      (dict_get d ''password'') files)
              @ [Log ERROR ''Failed to upload image, cannot create post'' []]"
      by blast
    with ev logs show ?thesis
      using upload_events [of _ env "dict_get d ''thumbnail_url''" "dict_get d ''alt_text''"
                              "dict_get d ''description''" "dict_get d ''title''"
                              "dict_get d ''username''" "dict_get d ''password''" files]
      by (auto simp: is_log_simps)
  qed
qed

text \<open>
  Two runs: the CMS answers the upload with a dictionary that has no \<^verbatim>\<open>id\<close>, and with
  the id 0. The only upstream calls are the download and the upload.
\<close>

theorem upload_without_id_creates_no_post_witness:
  "outcome (sample_create_post (env_answering (JDict [(''name'', JStr ''a.jpg'')]))) = Returned JNull
   \<and> filter is_upstream_call (events (sample_create_post (env_answering (JDict [(''name'', JStr ''a.jpg'')]))))
       = [Requests_get (JStr ''https://img.example/a.jpg'') (JStr ''user'') (JStr ''pw''),
          Requests_post media_url
            (Multipart_data (''T.jpg'', ''JPEG'', ''image/jpg'') (JStr ''alt'') ''T'' (JStr ''desc''))
            (Basic ''user'' ''pw'')]
   \<and> outcome (sample_create_post (env_answering (JDict [(''id'', JInt 0)]))) = Returned JNull
   \<and> filter is_upstream_call (events (sample_create_post (env_answering (JDict [(''id'', JInt 0)]))))
       = [Requests_get (JStr ''https://img.example/a.jpg'') (JStr ''user'') (JStr ''pw''),
          Requests_post media_url
            (Multipart_data (''T.jpg'', ''JPEG'', ''image/jpg'') (JStr ''alt'') ''T'' (JStr ''desc''))
            (Basic ''user'' ''pw'')]"
proof -
  let ?call = "Requests_post media_url
                 (Multipart_data (''T.jpg'', ''JPEG'', ''image/jpg'') (JStr ''alt'') ''T'' (JStr ''desc''))
                 (Basic ''user'' ''pw'')"
  let ?no_id = "env_answering (JDict [(''name'', JStr ''a.jpg'')])"
  let ?zero = "env_answering (JDict [(''id'', JInt 0)])"
  have n: "media_answer ?no_id ?call = Some JNull" "\<not> truthy JNull"
    by (simp_all add: env_answering_def sample_env_def raise_for_status_def dict_get_def)
  have z: "media_answer ?zero ?call = Some (JInt 0)" "\<not> truthy (JInt 0)"
    by (simp_all add: env_answering_def sample_env_def raise_for_status_def dict_get_def)
  have en: "?call \<in> set (events (sample_create_post ?no_id))"
    by (simp add: sample_create_post_def env_answering_def run_defs)
  have ez: "?call \<in> set (events (sample_create_post ?zero))"
    by (simp add: sample_create_post_def env_answering_def run_defs)
  have calls:
    "filter is_upstream_call (events (sample_create_post ?no_id))
       = [Requests_get (JStr ''https://img.example/a.jpg'') (JStr ''user'') (JStr ''pw''), ?call]"
    "filter is_upstream_call (events (sample_create_post ?zero))
       = [Requests_get (JStr ''https://img.example/a.jpg'') (JStr ''user'') (JStr ''pw''), ?call]"
    by (simp_all add: sample_create_post_def env_answering_def run_defs)
  from upload_without_id_creates_no_post [OF n] en
  have "outcome (sample_create_post ?no_id) = Returned JNull"
    unfolding sample_create_post_def by blast
  moreover
  from upload_without_id_creates_no_post [OF z] ez
  have "outcome (sample_create_post ?zero) = Returned JNull"
    unfolding sample_create_post_def by blast
  ultimately show ?thesis using calls by blast
qed

section \<open>The categories of a request\<close>



text \<open>
  C8, as the code has it. When the categories are a string that the decoder decodes, the
  decoded value goes to the presence check whatever its shape: no list check is applied
  to it. A decoded value that is truthy (as 5 and "abc" are) is passed to the post
  creation when the other required fields are truthy, and it is the categories of every
  post to the posts endpoint. A decoded value that is falsy (0, the empty string,
  \<^verbatim>\<open>null\<close>, \<^verbatim>\<open>false\<close>) is rejected by the presence check: the pipeline logs "Missing
  required parameters" and returns.
\<close>

theorem decoded_categories_not_checked_for_list:
  assumes "loads s = Inr decoded" and "dict_get d ''categories'' = JStr s"
  shows "process_media_and_post_async loads env (JDict d) files
           = check_required_parameters env (dict_get d ''title'') (dict_get d ''author'')
           (dict_get d ''content'') (dict_get d ''status'') decoded
           (dict_get d ''thumbnail_url'') (dict_get d ''alt_text'') (dict_get d ''description'')
           (dict_get d ''username'') (dict_get d ''password'') (dict_get d ''daprun_id'') files
       \<and> (truthy decoded \<and> truthy (dict_get d ''title'') \<and> truthy (dict_get d ''author'')
             \<and> truthy (dict_get d ''content'') \<and> truthy (dict_get d ''status'')
             \<and> truthy (dict_get d ''thumbnail_url'') \<and> truthy (dict_get d ''alt_text'')
             \<and> truthy (dict_get d ''description'') \<and> truthy (dict_get d ''username'')
             \<and> truthy (dict_get d ''password'') \<and> truthy (dict_get d ''daprun_id'')
           \<longrightarrow> events (process_media_and_post_async loads env (JDict d) files)
                 = Log INFO ''All required parameters are present'' []
                   # events (create_post_in_wordpress env (dict_get d ''title'') (dict_get d ''author'')
                 (dict_get d ''content'') (dict_get d ''status'') decoded
                 (dict_get d ''thumbnail_url'') (dict_get d ''alt_text'') (dict_get d ''description'')
                 (dict_get d ''username'') (dict_get d ''password'') (dict_get d ''daprun_id'') files))
       \<and> (\<forall>e\<in>set (events (process_media_and_post_async loads env (JDict d) files)). is_posts_call e \<longrightarrow>
             (\<exists>content featured_media auth.
                e = Requests_post posts_url
                      (Post_data (dict_get d ''title'') (dict_get d ''author'') content
                         (dict_get d ''status'') decoded featured_media) auth))
       \<and> (\<not> truthy decoded
           \<longrightarrow> process_media_and_post_async loads env (JDict d) files
                 = \<lparr>outcome = Returned (), tmp_files = files, events = [Log ERROR ''Missing required parameters'' []]\<rparr>)"
proof -
  from assms have dec: "decode_categories loads (dict_get d ''categories'') = Inr decoded"
    by simp
  have chk: "process_media_and_post_async loads env (JDict d) files
           = check_required_parameters env (dict_get d ''title'') (dict_get d ''author'')
           (dict_get d ''content'') (dict_get d ''status'') decoded
           (dict_get d ''thumbnail_url'') (dict_get d ''alt_text'') (dict_get d ''description'')
           (dict_get d ''username'') (dict_get d ''password'') (dict_get d ''daprun_id'') files"
    by (rule process_decoded [OF dec])
  have go: "events (process_media_and_post_async loads env (JDict d) files)
                 = Log INFO ''All required parameters are present'' []
                   # events (create_post_in_wordpress env (dict_get d ''title'') (dict_get d ''author'')
                 (dict_get d ''content'') (dict_get d ''status'') decoded
                 (dict_get d ''thumbnail_url'') (dict_get d ''alt_text'') (dict_get d ''description'')
                 (dict_get d ''username'') (dict_get d ''password'') (dict_get d ''daprun_id'') files)"
    if "truthy decoded \<and> truthy (dict_get d ''title'') \<and> truthy (dict_get d ''author'')
             \<and> truthy (dict_get d ''content'') \<and> truthy (dict_get d ''status'')
             \<and> truthy (dict_get d ''thumbnail_url'') \<and> truthy (dict_get d ''alt_text'')
             \<and> truthy (dict_get d ''description'') \<and> truthy (dict_get d ''username'')
             \<and> truthy (dict_get d ''password'') \<and> truthy (dict_get d ''daprun_id'')"
    unfolding chk using that by (simp add: check_required_parameters_def Let_def)
  have stop: "process_media_and_post_async loads env (JDict d) files
                 = \<lparr>outcome = Returned (), tmp_files = files, events = [Log ERROR ''Missing required parameters'' []]\<rparr>"
    if "\<not> truthy decoded"
    unfolding chk using that by (simp add: check_required_parameters_def)
  from chk go stop process_posts_payload [OF dec] show ?thesis by blast
qed

theorem decoded_categories_not_checked_for_list_witness:
  "Requests_post posts_url
     (Post_data (JStr ''T'') (JStr ''1'') ''Hello'' (JStr ''publish'') (JInt 5) 42) (Basic ''user'' ''pw'')
     \<in> set (events (sample_pipeline (JStr ''T'') (JStr ''5'')))
   \<and> Requests_post posts_url
     (Post_data (JStr ''T'') (JStr ''1'') ''Hello'' (JStr ''publish'') (JStr ''abc'') 42) (Basic ''user'' ''pw'')
     \<in> set (events (sample_pipeline (JStr ''T'') (JStr [CHR 0x22, CHR ''a'', CHR ''b'', CHR ''c'', CHR 0x22])))"
proof -
  have l1: "json_loads ''5'' = Inr (JInt 5)"
    by (simp add: dec_defs)
  have l2: "json_loads [CHR 0x22, CHR ''a'', CHR ''b'', CHR ''c'', CHR 0x22] = Inr (JStr ''abc'')"
    by (simp add: dec_defs)
  from decoded_categories_not_checked_for_list [where loads = json_loads and env = sample_env
         and files = Map.empty and s = "''5''" and decoded = "JInt 5"
         and d = "sample_fields (JStr ''T'') (JStr ''5'')"] l1
  have r1: "process_media_and_post_async json_loads sample_env
              (JDict (sample_fields (JStr ''T'') (JStr ''5''))) Map.empty
            = check_required_parameters sample_env (JStr ''T'') (JStr ''1'') (JStr ''Hello'') (JStr ''publish'')
         (JInt 5) (JStr ''https://img.example/a.jpg'') (JStr ''alt'') (JStr ''desc'')
         (JStr ''user'') (JStr ''pw'') (JStr ''run-1'') Map.empty"
    by (simp add: sample_fields_get)
  from decoded_categories_not_checked_for_list [where loads = json_loads and env = sample_env
         and files = Map.empty and s = "[CHR 0x22, CHR ''a'', CHR ''b'', CHR ''c'', CHR 0x22]" and decoded = "JStr ''abc''"
         and d = "sample_fields (JStr ''T'') (JStr [CHR 0x22, CHR ''a'', CHR ''b'', CHR ''c'', CHR 0x22])"] l2
  have r2: "process_media_and_post_async json_loads sample_env
              (JDict (sample_fields (JStr ''T'') (JStr [CHR 0x22, CHR ''a'', CHR ''b'', CHR ''c'', CHR 0x22]))) Map.empty
            = check_required_parameters sample_env (JStr ''T'') (JStr ''1'') (JStr ''Hello'') (JStr ''publish'')
         (JStr ''abc'') (JStr ''https://img.example/a.jpg'') (JStr ''alt'') (JStr ''desc'')
         (JStr ''user'') (JStr ''pw'') (JStr ''run-1'') Map.empty"
    by (simp add: sample_fields_get)
  show ?thesis
    unfolding sample_pipeline_def r1 r2 by (simp add: sample_run)
qed

text \<open>
  The claim as stated fails for the string "0": it decodes to 0, which is valid JSON
  and not a list, and the value is not passed to the post creation; the pipeline logs
  "Missing required parameters" and makes no call.
\<close>

theorem decoded_categories_counterexample:
  "json_loads ''0'' = Inr (JInt 0)
   \<and> sample_pipeline (JStr ''T'') (JStr ''0'')
     = \<lparr>outcome = Returned (), tmp_files = Map.empty,
        events = [Log ERROR ''Missing required parameters'' []]\<rparr>"
  by (simp add: dec_defs sample_pipeline_decoded check_required_parameters_def)

section \<open>The presence check\<close>

text \<open>
  C10, as the code has it. The presence check tests the truth value of each required
  value, so a falsy value fails it as a missing one does: it logs "Missing required
  parameters" and creates no post. For a request with a falsy text field (an empty
  string, say): the run of the pipeline equals the run for the request without the
  field, and it makes no upstream call. What it logs depends on the categories, whose
  step comes first: when the categories pass that step, the run consists of the log
  record "Missing required parameters"; when they fail it, the run consists of the error
  record of that step, which is another record. For a request whose categories are the
  empty list, the run consists of the log record "Missing required parameters"; the
  request without the categories field is stopped earlier, by the categories step, with
  the record "Categories should be a list or a JSON-encoded string representing a list".
\<close>

theorem falsy_field_is_missing_field:
  "(\<not> (truthy title \<and> truthy author \<and> truthy content \<and> truthy status \<and> truthy categories
         \<and> truthy thumbnail_url \<and> truthy alt \<and> truthy description \<and> truthy username
         \<and> truthy password \<and> truthy daprun_id)
     \<longrightarrow> check_required_parameters env title author content status categories thumbnail_url alt
           description username password daprun_id files
         = \<lparr>outcome = Returned (), tmp_files = files, events = [Log ERROR ''Missing required parameters'' []]\<rparr>)
   \<and> (k \<in> set text_fields \<and> \<not> truthy (dict_get d k)
     \<longrightarrow> process_media_and_post_async loads env (JDict d) files
           = process_media_and_post_async loads env (JDict (dict_remove k d)) files
       \<and> upstream_calls (events (process_media_and_post_async loads env (JDict d) files)) = []
       \<and> (\<forall>c. decode_categories loads (dict_get d ''categories'') = Inr c
             \<longrightarrow> process_media_and_post_async loads env (JDict d) files
                   = \<lparr>outcome = Returned (), tmp_files = files, events = [Log ERROR ''Missing required parameters'' []]\<rparr>)
       \<and> (\<forall>e. decode_categories loads (dict_get d ''categories'') = Inl e
             \<longrightarrow> process_media_and_post_async loads env (JDict d) files
                   = \<lparr>outcome = Returned (), tmp_files = files, events = [e]\<rparr>
               \<and> e \<noteq> Log ERROR ''Missing required parameters'' []))
   \<and> (dict_get d ''categories'' = JList []
     \<longrightarrow> process_media_and_post_async loads env (JDict d) files
           = \<lparr>outcome = Returned (), tmp_files = files, events = [Log ERROR ''Missing required parameters'' []]\<rparr>)
   \<and> process_media_and_post_async loads env (JDict (dict_remove ''categories'' d)) files
       = \<lparr>outcome = Returned (), tmp_files = files,
          events = [Log ERROR ''Categories should be a list or a JSON-encoded string representing a list'' []]\<rparr>"
proof (intro conjI impI)
  assume "\<not> (truthy title \<and> truthy author \<and> truthy content \<and> truthy status \<and> truthy categories
         \<and> truthy thumbnail_url \<and> truthy alt \<and> truthy description \<and> truthy username
         \<and> truthy password \<and> truthy daprun_id)"
  then show "check_required_parameters env title author content status categories thumbnail_url alt
           description username password daprun_id files
         = \<lparr>outcome = Returned (), tmp_files = files, events = [Log ERROR ''Missing required parameters'' []]\<rparr>"
    unfolding check_required_parameters_def by (rule if_not_P)
next
  assume "dict_get d ''categories'' = JList []"
  then show "process_media_and_post_async loads env (JDict d) files
           = \<lparr>outcome = Returned (), tmp_files = files, events = [Log ERROR ''Missing required parameters'' []]\<rparr>"
    by (simp add: process_media_and_post_async_def check_required_parameters_def)
next
  show "process_media_and_post_async loads env (JDict (dict_remove ''categories'' d)) files
       = \<lparr>outcome = Returned (), tmp_files = files,
          events = [Log ERROR ''Categories should be a list or a JSON-encoded string representing a list'' []]\<rparr>"
    by (simp add: process_media_and_post_async_def dict_get_remove)
next
  assume a: "k \<in> set text_fields \<and> \<not> truthy (dict_get d k)"
  then have k: "k \<noteq> ''categories''" and falsy: "\<not> truthy (dict_get d k)"
    by (auto simp: text_fields_def)
  have falsy': "\<not> truthy (dict_get (dict_remove k d) k)"
    by (simp add: dict_get_remove)
  have cats: "dict_get (dict_remove k d) ''categories'' = dict_get d ''categories''"
    using k by (simp add: dict_get_remove)
  have stop: "process_media_and_post_async loads env (JDict d) files
                   = \<lparr>outcome = Returned (), tmp_files = files, events = [Log ERROR ''Missing required parameters'' []]\<rparr>"
    if "decode_categories loads (dict_get d ''categories'') = Inr c" for c
    unfolding process_decoded [OF that] check_required_parameters_def
    using text_field_falsy [of k d c] a by (intro if_not_P) blast
  have stop': "process_media_and_post_async loads env (JDict (dict_remove k d)) files
                   = \<lparr>outcome = Returned (), tmp_files = files, events = [Log ERROR ''Missing required parameters'' []]\<rparr>"
    if "decode_categories loads (dict_get d ''categories'') = Inr c" for c
  proof -
    from that cats
    have "decode_categories loads (dict_get (dict_remove k d) ''categories'') = Inr c"
      by simp
    note run = process_decoded [OF this]
    show ?thesis
      unfolding run check_required_parameters_def
      using text_field_falsy [of k "dict_remove k d" c] a falsy' by (intro if_not_P) blast
  qed
  have err: "process_media_and_post_async loads env (JDict d) files
               = \<lparr>outcome = Returned (), tmp_files = files, events = [e]\<rparr>
           \<and> process_media_and_post_async loads env (JDict (dict_remove k d)) files
               = \<lparr>outcome = Returned (), tmp_files = files, events = [e]\<rparr>"
    if "decode_categories loads (dict_get d ''categories'') = Inl e" for e
    using k that by (simp add: process_media_and_post_async_def dict_get_remove)
  have other: "e \<noteq> Log ERROR ''Missing required parameters'' []"
    if "decode_categories loads (dict_get d ''categories'') = Inl e" for e
    using that by (cases "dict_get d ''categories''") (auto split: sum.splits)
  show "process_media_and_post_async loads env (JDict d) files
           = process_media_and_post_async loads env (JDict (dict_remove k d)) files"
    using stop stop' err by (cases "decode_categories loads (dict_get d ''categories'')") simp_all
  show "upstream_calls (events (process_media_and_post_async loads env (JDict d) files)) = []"
    using stop err decode_categories_Inl [of loads "dict_get d ''categories''"]
    by (cases "decode_categories loads (dict_get d ''categories'')")
       (auto simp: upstream_calls_def is_log_simps)
  show "\<forall>c. decode_categories loads (dict_get d ''categories'') = Inr c
             \<longrightarrow> process_media_and_post_async loads env (JDict d) files
                   = \<lparr>outcome = Returned (), tmp_files = files, events = [Log ERROR ''Missing required parameters'' []]\<rparr>"
    using stop by blast
  show "\<forall>e. decode_categories loads (dict_get d ''categories'') = Inl e
             \<longrightarrow> process_media_and_post_async loads env (JDict d) files
                   = \<lparr>outcome = Returned (), tmp_files = files, events = [e]\<rparr>
               \<and> e \<noteq> Log ERROR ''Missing required parameters'' []"
    using err other by blast
qed

text \<open>
  An empty title with a list of categories, an empty title with categories that are
  neither a string nor a list, an empty list of categories, and no categories.
\<close>

theorem falsy_field_is_missing_field_witness:
  "sample_pipeline (JStr []) (JList [JInt 1])
     = \<lparr>outcome = Returned (), tmp_files = Map.empty,
        events = [Log ERROR ''Missing required parameters'' []]\<rparr>
   \<and> sample_pipeline (JStr []) (JList [JInt 1])
     = process_media_and_post_async json_loads sample_env
         (JDict (dict_remove ''title'' (sample_fields (JStr []) (JList [JInt 1])))) Map.empty
   \<and> sample_pipeline (JStr []) (JInt 5)
     = \<lparr>outcome = Returned (), tmp_files = Map.empty,
        events = [Log ERROR ''Categories should be a list or a JSON-encoded string representing a list'' []]\<rparr>
   \<and> sample_pipeline (JStr ''T'') (JList [])
     = \<lparr>outcome = Returned (), tmp_files = Map.empty,
        events = [Log ERROR ''Missing required parameters'' []]\<rparr>
   \<and> process_media_and_post_async json_loads sample_env
         (JDict (dict_remove ''categories'' (sample_fields (JStr ''T'') (JList [])))) Map.empty
     = \<lparr>outcome = Returned (), tmp_files = Map.empty,
        events = [Log ERROR ''Categories should be a list or a JSON-encoded string representing a list'' []]\<rparr>"
proof -
  have t: "''title'' \<in> set text_fields
           \<and> \<not> truthy (dict_get (sample_fields (JStr []) (JList [JInt 1])) ''title'')"
    by (simp add: text_fields_def sample_fields_get)
  have c: "decode_categories json_loads
             (dict_get (sample_fields (JStr []) (JList [JInt 1])) ''categories'')
           = Inr (JList [JInt 1])"
    by (simp add: sample_fields_get)
  have t': "''title'' \<in> set text_fields
           \<and> \<not> truthy (dict_get (sample_fields (JStr []) (JInt 5)) ''title'')"
    by (simp add: text_fields_def sample_fields_get)
  have c': "decode_categories json_loads
             (dict_get (sample_fields (JStr []) (JInt 5)) ''categories'')
           = Inl (Log ERROR ''Categories should be a list or a JSON-encoded string representing a list'' [])"
    by (simp add: sample_fields_get)
  have e: "dict_get (sample_fields (JStr ''T'') (JList [])) ''categories'' = JList []"
    by (simp add: sample_fields_get)
  note title = falsy_field_is_missing_field [where k = "''title''" and loads = json_loads
      and env = sample_env and files = Map.empty
      and d = "sample_fields (JStr []) (JList [JInt 1])"]
  from title t
  have r1: "sample_pipeline (JStr []) (JList [JInt 1])
            = process_media_and_post_async json_loads sample_env
                (JDict (dict_remove ''title'' (sample_fields (JStr []) (JList [JInt 1])))) Map.empty"
    unfolding sample_pipeline_def by blast
  from title t c
  have r2: "sample_pipeline (JStr []) (JList [JInt 1])
            = \<lparr>outcome = Returned (), tmp_files = Map.empty,
        events = [Log ERROR ''Missing required parameters'' []]\<rparr>"
    unfolding sample_pipeline_def by blast
  from falsy_field_is_missing_field [where k = "''title''" and loads = json_loads
      and env = sample_env and files = Map.empty
      and d = "sample_fields (JStr []) (JInt 5)"] t' c'
  have r3: "sample_pipeline (JStr []) (JInt 5)
     = \<lparr>outcome = Returned (), tmp_files = Map.empty,
        events = [Log ERROR ''Categories should be a list or a JSON-encoded string representing a list'' []]\<rparr>"
    unfolding sample_pipeline_def by blast
  note empty = falsy_field_is_missing_field [where loads = json_loads and env = sample_env
      and files = Map.empty and d = "sample_fields (JStr ''T'') (JList [])"]
  from empty e
  have r4: "sample_pipeline (JStr ''T'') (JList [])
            = \<lparr>outcome = Returned (), tmp_files = Map.empty,
        events = [Log ERROR ''Missing required parameters'' []]\<rparr>"
    unfolding sample_pipeline_def by blast
  from empty
  have r5: "process_media_and_post_async json_loads sample_env
         (JDict (dict_remove ''categories'' (sample_fields (JStr ''T'') (JList [])))) Map.empty
     = \<lparr>outcome = Returned (), tmp_files = Map.empty,
        events = [Log ERROR ''Categories should be a list or a JSON-encoded string representing a list'' []]\<rparr>"
    by blast
  from r1 r2 r3 r4 r5 show ?thesis by simp
qed

text \<open>
  The claim as stated fails for an empty title with the categories "not-json": the title
  is present and falsy, and the record logged is the decoding error of the categories,
  not "Missing required parameters". It fails also for the empty list of categories
  read as a missing field: the run with the empty list is not the run without the
  field.
\<close>

theorem falsy_field_counterexample:
  "\<not> truthy (dict_get (sample_fields (JStr []) (JStr ''not-json'')) ''title'')
   \<and> sample_pipeline (JStr []) (JStr ''not-json'')
     = \<lparr>outcome = Returned (), tmp_files = Map.empty,
        events = [Log ERROR ''Error processing categories: %s''
                    [Arg_exn (JSONDecodeError ''Expecting value'')]]\<rparr>
   \<and> Log ERROR ''Missing required parameters'' []
       \<notin> set (events (sample_pipeline (JStr []) (JStr ''not-json'')))
   \<and> sample_pipeline (JStr ''T'') (JList [])
       \<noteq> process_media_and_post_async json_loads sample_env
           (JDict (dict_remove ''categories'' (sample_fields (JStr ''T'') (JList [])))) Map.empty"
proof -
  have l: "json_loads ''not-json'' = Inl ''Expecting value''"
    by (simp add: dec_defs)
  have r1: "sample_pipeline (JStr []) (JStr ''not-json'')
     = \<lparr>outcome = Returned (), tmp_files = Map.empty,
        events = [Log ERROR ''Error processing categories: %s''
                    [Arg_exn (JSONDecodeError ''Expecting value'')]]\<rparr>"
    by (simp add: sample_pipeline_def process_media_and_post_async_def sample_fields_get l)
  have r2: "sample_pipeline (JStr ''T'') (JList [])
     = \<lparr>outcome = Returned (), tmp_files = Map.empty,
        events = [Log ERROR ''Missing required parameters'' []]\<rparr>"
    by (simp add: sample_pipeline_def process_media_and_post_async_def sample_fields_get
          check_required_parameters_def)
  have r3: "process_media_and_post_async json_loads sample_env
           (JDict (dict_remove ''categories'' (sample_fields (JStr ''T'') (JList [])))) Map.empty
     = \<lparr>outcome = Returned (), tmp_files = Map.empty,
        events = [Log ERROR ''Categories should be a list or a JSON-encoded string representing a list'' []]\<rparr>"
    by (simp add: process_media_and_post_async_def dict_get_remove)
  show ?thesis
    unfolding r1 r2 r3 by (simp add: sample_fields_get)
qed

end
